theory Spec2Isabelle
  imports Complex_Main "HOL-Library.Sublist"
begin

section \<open>Numbers, strings and insertion-ordered maps of the runtime\<close>

text \<open>
  The design-tree parser and the token synthesizer compute on JavaScript numbers,
  which are IEEE 754 doubles. A finite double is a rational number, so a number is
  modelled as a rational; comparison is exact on them. Arithmetic is not: the result
  of \<open>*\<close>, \<open>+\<close> and \<open>/\<close> is the exact result rounded to the nearest double
  (\<open>toDouble\<close> below), and a decimal literal of the source such as \<open>0.3\<close> denotes the
  double nearest to it. The non-finite values (NaN, the infinities, and so every
  result of magnitude \<open>2^1024\<close> or more) are outside the model.
\<close>

type_synonym number = rat

text \<open>The nearest integer, a tie going to the even one.\<close>

definition roundTiesEven :: "rat \<Rightarrow> int" where
  "roundTiesEven x =
     (let f = \<lfloor>x\<rfloor>; d = x - of_int f
      in if d < 1 / 2 then f else if 1 / 2 < d then f + 1 else if even f then f else f + 1)"

text \<open>
  The binary exponent \<open>e\<close> with \<open>2^e \<le> x < 2^(e+1)\<close>: counted up from 1 for
  \<open>x \<ge> 1\<close>, and down from 1 for \<open>0 < x < 1\<close>.
\<close>

function log2Up :: "rat \<Rightarrow> int" where
  "log2Up x = (if x < 2 then 0 else log2Up (x / 2) + 1)"
  by pat_completeness auto
termination
proof (relation "measure (\<lambda>x. nat \<lfloor>x\<rfloor>)")
  show "wf (measure (\<lambda>x::rat. nat \<lfloor>x\<rfloor>))" by simp
next
  fix x :: rat
  assume "\<not> x < 2"
  then have "(1::rat) \<le> of_int \<lfloor>x\<rfloor>" by simp
  moreover have "x < of_int \<lfloor>x\<rfloor> + 1" by linarith
  ultimately have "x / 2 < of_int \<lfloor>x\<rfloor>" by linarith
  then have "\<lfloor>x / 2\<rfloor> < \<lfloor>x\<rfloor>" by (simp add: floor_less_iff)
  moreover from \<open>\<not> x < 2\<close> have "0 < \<lfloor>x\<rfloor>" by simp
  ultimately show "(x / 2, x) \<in> measure (\<lambda>x. nat \<lfloor>x\<rfloor>)" by simp
qed

function log2Down :: "rat \<Rightarrow> int" where
  "log2Down x = (if x \<le> 0 \<or> 1 \<le> x then 0 else log2Down (2 * x) - 1)"
  by pat_completeness auto
termination
proof (relation "measure (\<lambda>x. nat \<lfloor>1 / x\<rfloor>)")
  show "wf (measure (\<lambda>x::rat. nat \<lfloor>1 / x\<rfloor>))" by simp
next
  fix x :: rat
  assume "\<not> (x \<le> 0 \<or> 1 \<le> x)"
  define y where "y = 1 / x"
  from \<open>\<not> (x \<le> 0 \<or> 1 \<le> x)\<close> have h: "1 \<le> y" by (simp add: y_def)
  then have "(1::rat) \<le> of_int \<lfloor>y\<rfloor>" by simp
  moreover have "y < of_int \<lfloor>y\<rfloor> + 1" by linarith
  ultimately have "y / 2 < of_int \<lfloor>y\<rfloor>" by linarith
  then have "\<lfloor>y / 2\<rfloor> < \<lfloor>y\<rfloor>" by (simp add: floor_less_iff)
  moreover have "1 / (2 * x) = y / 2" by (simp add: y_def)
  moreover from h have "0 < \<lfloor>y\<rfloor>" by simp
  ultimately show "(2 * x, x) \<in> measure (\<lambda>x. nat \<lfloor>1 / x\<rfloor>)"
    by (simp add: y_def mult.commute)
qed

declare log2Up.simps [simp del] log2Down.simps [simp del]

definition pow2 :: "int \<Rightarrow> rat" where
  "pow2 e = (if 0 \<le> e then 2 ^ nat e else 1 / 2 ^ nat (- e))"

text \<open>
  The exponent of the binade of a positive number; below \<open>2^-1022\<close> the doubles are
  subnormal and keep the exponent \<open>-1022\<close>.
\<close>

definition binade :: "rat \<Rightarrow> int" where
  "binade a = max (if 1 \<le> a then log2Up a else log2Down a) (- 1022)"

definition roundToUnit :: "rat \<Rightarrow> rat \<Rightarrow> rat" where
  "roundToUnit u a = of_int (roundTiesEven (a / u)) * u"

text \<open>
  The double nearest to a rational, a tie going to the even significand: the doubles
  of the binade with exponent \<open>e\<close> are the multiples of \<open>2^(e-52)\<close>.
\<close>

definition toDouble :: "rat \<Rightarrow> number" where
  "toDouble x = (if x = 0 then 0 else sgn x * roundToUnit (pow2 (binade \<bar>x\<bar> - 52)) \<bar>x\<bar>)"

text \<open>The arithmetic operators of the source on numbers.\<close>

definition mulD :: "number \<Rightarrow> number \<Rightarrow> number" where
  "mulD a b = toDouble (a * b)"

definition addD :: "number \<Rightarrow> number \<Rightarrow> number" where
  "addD a b = toDouble (a + b)"

definition divD :: "number \<Rightarrow> number \<Rightarrow> number" where
  "divD a b = toDouble (a / b)"

text \<open>\<open>x || d\<close> on an optional number: \<open>undefined\<close> and \<open>0\<close> are falsy.\<close>

definition orNum :: "number option \<Rightarrow> number \<Rightarrow> number" where
  "orNum x d = (case x of None \<Rightarrow> d | Some v \<Rightarrow> if v = 0 then d else v)"

text \<open>\<open>x || d\<close> on an optional string: \<open>undefined\<close> and the empty string are falsy.\<close>

definition orStr :: "string option \<Rightarrow> string \<Rightarrow> string" where
  "orStr x d = (case x of None \<Rightarrow> d | Some v \<Rightarrow> if v = [] then d else v)"

text \<open>Truthiness of an optional number, as tested by \<open>if (x)\<close> and \<open>x || y\<close>.\<close>

definition truthy :: "number option \<Rightarrow> bool" where
  "truthy x = (case x of None \<Rightarrow> False | Some v \<Rightarrow> v \<noteq> 0)"

text \<open>
  \<open>Math.round\<close>: the nearest integer to the exact value of its argument, a tie going
  towards plus infinity.
\<close>

definition mathRound :: "number \<Rightarrow> int" where
  "mathRound x = \<lfloor>x + 1 / 2\<rfloor>"

text \<open>Digits of a natural number in a radix between 2 and 16, lower case.\<close>

definition digitChar :: "nat \<Rightarrow> char" where
  "digitChar d = ''0123456789abcdef'' ! d"

function natToRadix :: "nat \<Rightarrow> nat \<Rightarrow> string" where
  "natToRadix b n =
     (if n < b \<or> b < 2 then [digitChar n] else natToRadix b (n div b) @ [digitChar (n mod b)])"
  by pat_completeness auto
termination
  by (relation "measure (\<lambda>(b, n). n)") auto

declare natToRadix.simps [simp del]

text \<open>
  \<open>Number.prototype.toString(radix)\<close> and the template-literal rendering of a
  number, on integral values: a minus sign and the digits. (In radix 10 the runtime
  changes to exponent notation from \<open>10^21\<close> on; such magnitudes are outside the
  model, as they are for \<open>toFixed\<close> below.)
\<close>

definition intToRadix :: "nat \<Rightarrow> int \<Rightarrow> string" where
  "intToRadix b v = (if v < 0 then ''-'' @ natToRadix b (nat (- v)) else natToRadix b (nat v))"

definition showNat :: "nat \<Rightarrow> string" where
  "showNat n = natToRadix 10 n"

definition showInt :: "int \<Rightarrow> string" where
  "showInt v = intToRadix 10 v"

text \<open>
  The rendering of an integral number in a template literal, used to run the
  functions below on concrete inputs. Where a function renders numbers that need
  not be integral (font sizes and weights in a deduplication key), the rendering
  is a parameter \<open>str\<close> of the function, and the theorems hold for every
  rendering.
\<close>

definition intStr :: "number \<Rightarrow> string" where
  "intStr q = showInt \<lfloor>q\<rfloor>"

text \<open>\<open>String.prototype.toUpperCase\<close> on ASCII.\<close>

definition upperChar :: "char \<Rightarrow> char" where
  "upperChar c =
     (let n = (of_char c :: nat) in if 97 \<le> n \<and> n \<le> 122 then char_of (n - 32) else c)"

definition toUpperCase :: "string \<Rightarrow> string" where
  "toUpperCase s = map upperChar s"

text \<open>
  \<open>Number.prototype.toFixed(2)\<close>: the sign, then the nearest multiple of 1/100
  (the larger one at a tie) with two fraction digits.
\<close>

definition toFixed2 :: "number \<Rightarrow> string" where
  "toFixed2 x =
     (let n = nat \<lfloor>\<bar>x\<bar> * 100 + 1 / 2\<rfloor>;
          f = natToRadix 10 (n mod 100)
      in (if x < 0 then ''-'' else '''') @ natToRadix 10 (n div 100) @ ''.''
           @ (if length f = 1 then ''0'' @ f else f))"

text \<open>
  A \<open>Map\<close> keeps its entries in insertion order: an association list. Setting a
  key that is present keeps its position; a new key goes to the end.
\<close>

type_synonym ('k, 'v) jsmap = "('k \<times> 'v) list"

definition mapHas :: "('k, 'v) jsmap \<Rightarrow> 'k \<Rightarrow> bool" where
  "mapHas m k = (map_of m k \<noteq> None)"

fun mapSet :: "'k \<Rightarrow> 'v \<Rightarrow> ('k, 'v) jsmap \<Rightarrow> ('k, 'v) jsmap" where
  "mapSet k v [] = [(k, v)]"
| "mapSet k v (p # m) = (if fst p = k then (k, v) # m else p # mapSet k v m)"

definition mapValues :: "('k, 'v) jsmap \<Rightarrow> 'v list" where
  "mapValues m = map snd m"

text \<open>\<open>[...new Set(xs)]\<close>: the first occurrence of every value, in order.\<close>

fun setValues :: "'a list \<Rightarrow> 'a list" where
  "setValues [] = []"
| "setValues (x # xs) = x # setValues (filter (\<lambda>y. y \<noteq> x) xs)"

text \<open>\<open>xs.forEach(f)\<close> on an optional array, guarded by \<open>if (xs)\<close>.\<close>

definition forEachOpt :: "('a \<Rightarrow> 's \<Rightarrow> 's) \<Rightarrow> 'a list option \<Rightarrow> 's \<Rightarrow> 's" where
  "forEachOpt f xs s = (case xs of None \<Rightarrow> s | Some l \<Rightarrow> fold f l s)"

text \<open>\<open>xs.map((value, index) => f(value, index))\<close>.\<close>

definition mapIndexed :: "('a \<Rightarrow> nat \<Rightarrow> 'b) \<Rightarrow> 'a list \<Rightarrow> 'b list" where
  "mapIndexed f xs = map (\<lambda>(x, i). f x i) (zip xs [0 ..< length xs])"

section \<open>The design-node model\<close>

record FigmaColor =
  col_r :: number
  col_g :: number
  col_b :: number
  col_a :: "number option"

text \<open>
  A fill, stroke or effect descriptor: its type tag and its optional color (the
  opacity of a fill is never read by the extraction).
\<close>

record Paint =
  paint_type :: string
  paint_color :: "FigmaColor option"

datatype Dimension = Num number | ValueUnit number string

record TypeStyle =
  st_fontFamily :: "string option"
  st_fontSize :: "number option"
  st_fontWeight :: "number option"
  st_lineHeight :: "Dimension option"
  st_letterSpacing :: "Dimension option"
  st_textCase :: "string option"

datatype LayoutMode = HORIZONTAL | VERTICAL | NONE

datatype CornerRadius = Uniform number | Corners number number number number

text \<open>
  The fields of a node that the extraction functions read. The children are kept
  beside them; an absent \<open>children\<close> array is the empty list (every traversal
  guards the array by \<open>if (node.children)\<close> and only iterates over it).
\<close>

record NodeData =
  node_type :: string
  fills :: "Paint list option"
  strokes :: "Paint list option"
  effects :: "Paint list option"
  style :: "TypeStyle option"
  layoutMode :: "LayoutMode option"
  paddingLeft :: "number option"
  paddingRight :: "number option"
  paddingTop :: "number option"
  paddingBottom :: "number option"
  itemSpacing :: "number option"
  cornerRadius :: "CornerRadius option"

datatype FigmaNode = FigmaNode (ndata: NodeData) (children: "FigmaNode list")

definition blank :: "string \<Rightarrow> NodeData" where
  "blank t = \<lparr>node_type = t, fills = None, strokes = None, effects = None, style = None,
     layoutMode = None, paddingLeft = None, paddingRight = None, paddingTop = None,
     paddingBottom = None, itemSpacing = None, cornerRadius = None\<rparr>"

record ParsedTextStyle =
  fontFamily :: string
  fontSize :: number
  fontWeight :: number
  lineHeight :: number
  letterSpacing :: number
  textCase :: "string option"

record ParsedColor =
  pc_r :: number
  pc_g :: number
  pc_b :: number
  pc_a :: number
  hex :: string
  rgba :: string

record Sides =
  side_left :: number
  side_right :: number
  side_top :: number
  side_bottom :: number

record ParsedAutoLayout =
  direction :: LayoutMode
  al_padding :: Sides
  al_spacing :: number

record ParsedSpacing =
  padding :: "Sides option"
  margin :: "Sides option"
  gap :: "number option"

record ParsedDesign =
  textStyles :: "ParsedTextStyle list"
  colors :: "ParsedColor list"
  autoLayouts :: "ParsedAutoLayout list"
  spacing :: "ParsedSpacing list"
  borderRadius :: "number list"

section \<open>Extraction\<close>

subsection \<open>Colors\<close>

definition toHex :: "number \<Rightarrow> string" where
  "toHex n =
     (let h = intToRadix 16 (mathRound (mulD n 255)) in if length h = 1 then ''0'' @ h else h)"

definition rgbToHex :: "number \<Rightarrow> number \<Rightarrow> number \<Rightarrow> string" where
  "rgbToHex r g b = toUpperCase (''#'' @ toHex r @ toHex g @ toHex b)"

definition rgbToRgba :: "number \<Rightarrow> number \<Rightarrow> number \<Rightarrow> number \<Rightarrow> string" where
  "rgbToRgba r g b a =
     ''rgba('' @ showInt (mathRound (mulD r 255)) @ '', '' @ showInt (mathRound (mulD g 255))
       @ '', '' @ showInt (mathRound (mulD b 255)) @ '', '' @ toFixed2 a @ '')''"

text \<open>The record that \<open>extractColorFromFill\<close> builds from a paint's color (\<open>a\<close> defaults to 1).\<close>

definition parsedColor :: "FigmaColor \<Rightarrow> ParsedColor" where
  "parsedColor c =
     (let a = (case col_a c of None \<Rightarrow> 1 | Some v \<Rightarrow> v)
      in \<lparr>pc_r = col_r c, pc_g = col_g c, pc_b = col_b c, pc_a = a,
           hex = rgbToHex (col_r c) (col_g c) (col_b c),
           rgba = rgbToRgba (col_r c) (col_g c) (col_b c) a\<rparr>)"

definition extractColorFromFill :: "Paint \<Rightarrow> (string, ParsedColor) jsmap \<Rightarrow> (string, ParsedColor) jsmap" where
  "extractColorFromFill fill cmap =
     (case paint_color fill of
        None \<Rightarrow> cmap
      | Some c \<Rightarrow>
          if paint_type fill = ''SOLID''
          then (let p = parsedColor c; key = hex p
                in if \<not> mapHas cmap key then mapSet key p cmap else cmap)
          else cmap)"

definition effectColor :: "Paint \<Rightarrow> (string, ParsedColor) jsmap \<Rightarrow> (string, ParsedColor) jsmap" where
  "effectColor effect cmap =
     (case paint_color effect of
        None \<Rightarrow> cmap
      | Some c \<Rightarrow> extractColorFromFill \<lparr>paint_type = ''SOLID'', paint_color = Some c\<rparr> cmap)"

definition visitColors :: "NodeData \<Rightarrow> (string, ParsedColor) jsmap \<Rightarrow> (string, ParsedColor) jsmap" where
  "visitColors d cmap =
     forEachOpt effectColor (effects d)
       (forEachOpt extractColorFromFill (strokes d)
         (forEachOpt extractColorFromFill (fills d) cmap))"

fun traverseColors :: "FigmaNode \<Rightarrow> (string, ParsedColor) jsmap \<Rightarrow> (string, ParsedColor) jsmap" where
  "traverseColors (FigmaNode d cs) cmap = fold traverseColors cs (visitColors d cmap)"

definition extractColors :: "FigmaNode list \<Rightarrow> ParsedColor list" where
  "extractColors nodes = mapValues (fold traverseColors nodes [])"

subsection \<open>Text styles\<close>

text \<open>
  The deduplication key of \<open>extractTextStyles\<close>, the template literal
  \<open>`${fontFamily || 'Unknown'}-${fontSize || 0}-${fontWeight || 400}`\<close>.
\<close>

definition textStyleKey :: "(number \<Rightarrow> string) \<Rightarrow> TypeStyle \<Rightarrow> string" where
  "textStyleKey str s =
     orStr (st_fontFamily s) ''Unknown'' @ ''-'' @ str (orNum (st_fontSize s) 0) @ ''-''
       @ str (orNum (st_fontWeight s) 400)"

text \<open>The \<open>ParsedTextStyle\<close> that the traversal builds from a node's style.\<close>

definition parseTextStyle :: "TypeStyle \<Rightarrow> ParsedTextStyle" where
  "parseTextStyle s =
     \<lparr>fontFamily = orStr (st_fontFamily s) ''Inter'',
      fontSize = orNum (st_fontSize s) 16,
      fontWeight = orNum (st_fontWeight s) 400,
      lineHeight =
        (case st_lineHeight s of
           Some (ValueUnit v u) \<Rightarrow> v
         | Some (Num v) \<Rightarrow> orNum (Some v) (orNum (st_fontSize s) 16)
         | None \<Rightarrow> orNum None (orNum (st_fontSize s) 16)),
      letterSpacing =
        (case st_letterSpacing s of
           Some (ValueUnit v u) \<Rightarrow> v
         | Some (Num v) \<Rightarrow> orNum (Some v) 0
         | None \<Rightarrow> orNum None 0),
      textCase = st_textCase s\<rparr>"

definition visitTextStyle ::
  "(number \<Rightarrow> string) \<Rightarrow> NodeData \<Rightarrow> (string, ParsedTextStyle) jsmap \<Rightarrow> (string, ParsedTextStyle) jsmap" where
  "visitTextStyle str d tmap =
     (if node_type d = ''TEXT''
      then (case style d of
              None \<Rightarrow> tmap
            | Some s \<Rightarrow>
                (let key = textStyleKey str s
                 in if \<not> mapHas tmap key then mapSet key (parseTextStyle s) tmap else tmap))
      else tmap)"

fun traverseTextStyles ::
  "(number \<Rightarrow> string) \<Rightarrow> FigmaNode \<Rightarrow> (string, ParsedTextStyle) jsmap \<Rightarrow> (string, ParsedTextStyle) jsmap" where
  "traverseTextStyles str (FigmaNode d cs) tmap =
     fold (traverseTextStyles str) cs (visitTextStyle str d tmap)"

definition extractTextStyles :: "(number \<Rightarrow> string) \<Rightarrow> FigmaNode list \<Rightarrow> ParsedTextStyle list" where
  "extractTextStyles str nodes = mapValues (fold (traverseTextStyles str) nodes [])"

subsection \<open>Auto-layout and spacing\<close>

definition nodePadding :: "NodeData \<Rightarrow> Sides" where
  "nodePadding d =
     \<lparr>side_left = orNum (paddingLeft d) 0, side_right = orNum (paddingRight d) 0,
      side_top = orNum (paddingTop d) 0, side_bottom = orNum (paddingBottom d) 0\<rparr>"

definition visitAutoLayout :: "NodeData \<Rightarrow> ParsedAutoLayout list \<Rightarrow> ParsedAutoLayout list" where
  "visitAutoLayout d layouts =
     (case layoutMode d of
        None \<Rightarrow> layouts
      | Some mode \<Rightarrow>
          if mode \<noteq> NONE
          then layouts @ [\<lparr>direction = mode, al_padding = nodePadding d,
                           al_spacing = orNum (itemSpacing d) 0\<rparr>]
          else layouts)"

fun traverseAutoLayout :: "FigmaNode \<Rightarrow> ParsedAutoLayout list \<Rightarrow> ParsedAutoLayout list" where
  "traverseAutoLayout (FigmaNode d cs) layouts = fold traverseAutoLayout cs (visitAutoLayout d layouts)"

definition extractAutoLayoutInfo :: "FigmaNode list \<Rightarrow> ParsedAutoLayout list" where
  "extractAutoLayoutInfo nodes = fold traverseAutoLayout nodes []"

text \<open>\<open>Object.keys(spacingData).length\<close>: the number of fields that were assigned.\<close>

definition keyCount :: "ParsedSpacing \<Rightarrow> nat" where
  "keyCount s =
     (if padding s \<noteq> None then 1 else 0) + (if margin s \<noteq> None then 1 else 0)
       + (if gap s \<noteq> None then 1 else 0)"

definition spacingDataOf :: "NodeData \<Rightarrow> ParsedSpacing" where
  "spacingDataOf d =
     (let spacingData = \<lparr>padding = None, margin = None, gap = None\<rparr>;
          spacingData =
            (if truthy (paddingLeft d) \<or> truthy (paddingRight d) \<or> truthy (paddingTop d)
                \<or> truthy (paddingBottom d)
             then spacingData\<lparr>padding := Some (nodePadding d)\<rparr> else spacingData)
      in (case itemSpacing d of
            None \<Rightarrow> spacingData
          | Some v \<Rightarrow> spacingData\<lparr>gap := Some v\<rparr>))"

definition visitSpacing :: "NodeData \<Rightarrow> ParsedSpacing list \<Rightarrow> ParsedSpacing list" where
  "visitSpacing d acc =
     (let spacingData = spacingDataOf d
      in if keyCount spacingData > 0 then acc @ [spacingData] else acc)"

fun traverseSpacing :: "FigmaNode \<Rightarrow> ParsedSpacing list \<Rightarrow> ParsedSpacing list" where
  "traverseSpacing (FigmaNode d cs) acc = fold traverseSpacing cs (visitSpacing d acc)"

definition extractSpacing :: "FigmaNode list \<Rightarrow> ParsedSpacing list" where
  "extractSpacing nodes = fold traverseSpacing nodes []"

subsection \<open>Border radius and the whole parse\<close>

text \<open>\<open>if (!borderRadius.includes(v)) borderRadius.push(v)\<close>.\<close>

definition pushIfNew :: "number \<Rightarrow> number list \<Rightarrow> number list" where
  "pushIfNew v acc = (if v \<in> set acc then acc else acc @ [v])"

definition visitBorderRadius :: "NodeData \<Rightarrow> number list \<Rightarrow> number list" where
  "visitBorderRadius d acc =
     (case cornerRadius d of
        None \<Rightarrow> acc
      | Some (Uniform v) \<Rightarrow> pushIfNew v acc
      | Some (Corners topLeft topRight bottomLeft bottomRight) \<Rightarrow>
          fold pushIfNew [topLeft, topRight, bottomLeft, bottomRight] acc)"

fun extractBorderRadius :: "FigmaNode \<Rightarrow> number list \<Rightarrow> number list" where
  "extractBorderRadius (FigmaNode d cs) acc = fold extractBorderRadius cs (visitBorderRadius d acc)"

definition parseFigmaNodes :: "(number \<Rightarrow> string) \<Rightarrow> FigmaNode list \<Rightarrow> ParsedDesign" where
  "parseFigmaNodes str nodes =
     \<lparr>textStyles = extractTextStyles str nodes,
      colors = extractColors nodes,
      autoLayouts = extractAutoLayoutInfo nodes,
      spacing = extractSpacing nodes,
      borderRadius = sort (setValues (fold extractBorderRadius nodes []))\<rparr>"

section \<open>Token synthesis\<close>

datatype ColorCategory = Primary | Secondary | Neutral | Semantic

text \<open>The string that a category is at run time.\<close>

fun categoryLabel :: "ColorCategory \<Rightarrow> string" where
  "categoryLabel Primary = ''primary''"
| "categoryLabel Secondary = ''secondary''"
| "categoryLabel Neutral = ''neutral''"
| "categoryLabel Semantic = ''semantic''"

record ColorToken =
  ct_name :: string
  ct_value :: string
  ct_hex :: string
  ct_rgba :: string
  ct_category :: ColorCategory

record TypographyToken =
  ty_name :: string
  ty_fontFamily :: string
  ty_fontSize :: number
  ty_fontWeight :: number
  ty_lineHeight :: number
  ty_letterSpacing :: number
  ty_textCase :: "string option"

datatype SpacingCategory = Padding | Margin | Gap

record SpacingToken =
  sp_name :: string
  sp_value :: number
  sp_category :: SpacingCategory

record BorderRadiusToken =
  br_name :: string
  br_value :: number

record DesignTokens =
  tk_colors :: "ColorToken list"
  tk_typography :: "TypographyToken list"
  tk_spacing :: "SpacingToken list"
  tk_borderRadius :: "BorderRadiusToken list"

definition generateColorName :: "ParsedColor \<Rightarrow> nat \<Rightarrow> ParsedColor list \<Rightarrow> string" where
  "generateColorName color index allColors =
     (let brightness =
            divD (addD (addD (mulD (pc_r color) 299) (mulD (pc_g color) 587))
                    (mulD (pc_b color) 114)) 1000
      in if brightness < toDouble (3 / 10) then ''neutral-'' @ showNat (index + 1) @ ''-dark''
         else if brightness > toDouble (7 / 10)
           then ''neutral-'' @ showNat (index + 1) @ ''-light''
         else if pc_r color > pc_g color \<and> pc_r color > pc_b color
           then ''primary-'' @ showNat (index + 1)
         else if pc_g color > pc_r color \<and> pc_g color > pc_b color
           then ''secondary-'' @ showNat (index + 1)
         else ''semantic-'' @ showNat (index + 1))"

definition categorizeColor :: "ParsedColor \<Rightarrow> nat \<Rightarrow> ParsedColor list \<Rightarrow> ColorCategory" where
  "categorizeColor color index allColors =
     (let brightness =
            divD (addD (addD (mulD (pc_r color) 299) (mulD (pc_g color) 587))
                    (mulD (pc_b color) 114)) 1000
      in if brightness < toDouble (3 / 10) \<or> brightness > toDouble (7 / 10) then Neutral
         else if pc_r color > pc_g color \<and> pc_r color > pc_b color then Primary
         else if pc_g color > pc_r color \<and> pc_g color > pc_b color then Secondary
         else Semantic)"

definition generateColorTokens :: "ParsedColor list \<Rightarrow> ColorToken list" where
  "generateColorTokens cols =
     mapIndexed (\<lambda>color index.
        \<lparr>ct_name = generateColorName color index cols, ct_value = hex color, ct_hex = hex color,
         ct_rgba = rgba color, ct_category = categorizeColor color index cols\<rparr>) cols"

definition generateTypographyName :: "ParsedTextStyle \<Rightarrow> nat \<Rightarrow> string" where
  "generateTypographyName sty index =
     (let size = fontSize sty; weight = fontWeight sty
      in if size \<ge> 32 then ''heading-'' @ (if weight \<ge> 700 then ''bold'' else ''regular'')
         else if size \<ge> 24 then ''subheading-'' @ (if weight \<ge> 600 then ''semibold'' else ''regular'')
         else if size \<ge> 18 then ''body-large-'' @ (if weight \<ge> 500 then ''medium'' else ''regular'')
         else if size \<ge> 16 then ''body-'' @ (if weight \<ge> 500 then ''medium'' else ''regular'')
         else if size \<ge> 14 then ''body-small-'' @ (if weight \<ge> 500 then ''medium'' else ''regular'')
         else ''caption-'' @ (if weight \<ge> 500 then ''medium'' else ''regular''))"

text \<open>The key of the synthesizer's own pass, \<open>`${fontFamily}-${fontSize}-${fontWeight}`\<close>.\<close>

definition typographyKey :: "(number \<Rightarrow> string) \<Rightarrow> ParsedTextStyle \<Rightarrow> string" where
  "typographyKey str sty = fontFamily sty @ ''-'' @ str (fontSize sty) @ ''-'' @ str (fontWeight sty)"

definition addUniqueStyle ::
  "(number \<Rightarrow> string) \<Rightarrow> ParsedTextStyle \<Rightarrow> (string, ParsedTextStyle) jsmap \<Rightarrow> (string, ParsedTextStyle) jsmap" where
  "addUniqueStyle str sty uniqueStyles =
     (let key = typographyKey str sty
      in if \<not> mapHas uniqueStyles key then mapSet key sty uniqueStyles else uniqueStyles)"

definition generateTypographyTokens :: "(number \<Rightarrow> string) \<Rightarrow> ParsedTextStyle list \<Rightarrow> TypographyToken list" where
  "generateTypographyTokens str styles =
     (let uniqueStyles = fold (addUniqueStyle str) styles []
      in mapIndexed (\<lambda>sty index.
           \<lparr>ty_name = generateTypographyName sty index, ty_fontFamily = fontFamily sty,
            ty_fontSize = fontSize sty, ty_fontWeight = fontWeight sty,
            ty_lineHeight = lineHeight sty, ty_letterSpacing = letterSpacing sty,
            ty_textCase = textCase sty\<rparr>) (mapValues uniqueStyles))"

definition spacingName :: "number \<Rightarrow> nat \<Rightarrow> string" where
  "spacingName v index =
     (if v = 0 then ''none''
      else if v \<le> 4 then ''xs-'' @ showNat index
      else if v \<le> 8 then ''sm-'' @ showNat index
      else if v \<le> 16 then ''md-'' @ showNat index
      else if v \<le> 24 then ''lg-'' @ showNat index
      else if v \<le> 32 then ''xl-'' @ showNat index
      else ''xxl-'' @ showNat index)"

definition generateSpacingTokens :: "number list \<Rightarrow> SpacingToken list" where
  "generateSpacingTokens vals =
     (let uniqueSpacing = sort (setValues vals)
      in mapIndexed (\<lambda>v index. \<lparr>sp_name = spacingName v index, sp_value = v, sp_category = Gap\<rparr>)
           uniqueSpacing)"

definition radiusName :: "number \<Rightarrow> nat \<Rightarrow> string" where
  "radiusName v index =
     (if v = 0 then ''none''
      else if v \<le> 4 then ''sm-'' @ showNat index
      else if v \<le> 8 then ''md-'' @ showNat index
      else if v \<le> 16 then ''lg-'' @ showNat index
      else ''xl-'' @ showNat index)"

definition generateBorderRadiusTokens :: "number list \<Rightarrow> BorderRadiusToken list" where
  "generateBorderRadiusTokens vals =
     (let uniqueRadius = sort (setValues vals)
      in mapIndexed (\<lambda>v index. \<lparr>br_name = radiusName v index, br_value = v\<rparr>) uniqueRadius)"

text \<open>\<open>xs.filter(v => v !== undefined)\<close>.\<close>

fun definedValues :: "'a option list \<Rightarrow> 'a list" where
  "definedValues [] = []"
| "definedValues (None # xs) = definedValues xs"
| "definedValues (Some v # xs) = v # definedValues xs"

definition layoutValues :: "ParsedAutoLayout \<Rightarrow> number list" where
  "layoutValues l =
     [side_left (al_padding l), side_right (al_padding l), side_top (al_padding l),
      side_bottom (al_padding l), al_spacing l]"

definition spacingValues :: "ParsedSpacing \<Rightarrow> number list" where
  "spacingValues s =
     definedValues
       [map_option side_left (padding s), map_option side_right (padding s),
        map_option side_top (padding s), map_option side_bottom (padding s),
        map_option side_left (margin s), map_option side_right (margin s),
        map_option side_top (margin s), map_option side_bottom (margin s),
        gap s]"

definition allSpacingValues :: "ParsedDesign \<Rightarrow> number list" where
  "allSpacingValues pd =
     concat (map layoutValues (autoLayouts pd)) @ concat (map spacingValues (spacing pd))"

definition generateDesignTokens :: "(number \<Rightarrow> string) \<Rightarrow> ParsedDesign \<Rightarrow> DesignTokens" where
  "generateDesignTokens str pd =
     \<lparr>tk_colors = generateColorTokens (colors pd),
      tk_typography = generateTypographyTokens str (textStyles pd),
      tk_spacing = generateSpacingTokens (allSpacingValues pd),
      tk_borderRadius = generateBorderRadiusTokens (borderRadius pd)\<rparr>"

section \<open>Reference functions of the specification\<close>

text \<open>The nodes of a tree in pre-order: a parent before its children, the children in order.\<close>

fun preorder :: "FigmaNode \<Rightarrow> FigmaNode list" where
  "preorder (FigmaNode d cs) = FigmaNode d cs # concat (map preorder cs)"

definition preorderForest :: "FigmaNode list \<Rightarrow> FigmaNode list" where
  "preorderForest nodes = concat (map preorder nodes)"

text \<open>The shape shared by the five traversals: visit the node, then each child in turn.\<close>

fun walk :: "(NodeData \<Rightarrow> 's \<Rightarrow> 's) \<Rightarrow> FigmaNode \<Rightarrow> 's \<Rightarrow> 's" where
  "walk visit (FigmaNode d cs) s = fold (walk visit) cs (visit d s)"

text \<open>
  Color classification as the claim words it: the brightness
  \<open>B = 0.299 r + 0.587 g + 0.114 b\<close> of the channel values, in exact arithmetic, and
  five rules in order of precedence.
\<close>

definition specColorClass :: "ParsedColor \<Rightarrow> nat \<Rightarrow> string \<times> ColorCategory" where
  "specColorClass c i =
     (let B = 299 / 1000 * pc_r c + 587 / 1000 * pc_g c + 114 / 1000 * pc_b c
      in if B < 3 / 10 then (''neutral-'' @ showNat (i + 1) @ ''-dark'', Neutral)
         else if B > 7 / 10 then (''neutral-'' @ showNat (i + 1) @ ''-light'', Neutral)
         else if pc_r c > pc_g c \<and> pc_r c > pc_b c then (''primary-'' @ showNat (i + 1), Primary)
         else if pc_g c > pc_r c \<and> pc_g c > pc_b c then (''secondary-'' @ showNat (i + 1), Secondary)
         else (''semantic-'' @ showNat (i + 1), Semantic))"

text \<open>
  The same formula evaluated in double arithmetic, term by term from the left, for
  comparison with the double thresholds.
\<close>

definition specBrightnessD :: "ParsedColor \<Rightarrow> number" where
  "specBrightnessD c =
     addD (addD (mulD (toDouble (299 / 1000)) (pc_r c)) (mulD (toDouble (587 / 1000)) (pc_g c)))
       (mulD (toDouble (114 / 1000)) (pc_b c))"

text \<open>
  The brightness as the source computes it, \<open>(r * 299 + g * 587 + b * 114) / 1000\<close> in
  double arithmetic, and the five rules on it with the doubles \<open>0.3\<close> and \<open>0.7\<close> as
  thresholds.
\<close>

definition codeBrightness :: "ParsedColor \<Rightarrow> number" where
  "codeBrightness c =
     divD (addD (addD (mulD (pc_r c) 299) (mulD (pc_g c) 587)) (mulD (pc_b c) 114)) 1000"

definition doubleColorClass :: "ParsedColor \<Rightarrow> nat \<Rightarrow> string \<times> ColorCategory" where
  "doubleColorClass c i =
     (if codeBrightness c < toDouble (3 / 10)
        then (''neutral-'' @ showNat (i + 1) @ ''-dark'', Neutral)
      else if codeBrightness c > toDouble (7 / 10)
        then (''neutral-'' @ showNat (i + 1) @ ''-light'', Neutral)
      else if pc_r c > pc_g c \<and> pc_r c > pc_b c then (''primary-'' @ showNat (i + 1), Primary)
      else if pc_g c > pc_r c \<and> pc_g c > pc_b c then (''secondary-'' @ showNat (i + 1), Secondary)
      else (''semantic-'' @ showNat (i + 1), Semantic))"

text \<open>
  Colors used as concrete inputs: the doubles written \<open>0.1\<close> and \<open>0.8, 0.2, 0.2\<close>, and
  a color whose exact brightness lies just below \<open>0.3\<close>.
\<close>

definition cA :: ParsedColor where
  "cA = \<lparr>pc_r = toDouble (1 / 10), pc_g = toDouble (1 / 10), pc_b = toDouble (1 / 10), pc_a = 1,
          hex = ''#1A1A1A'', rgba = ''rgba(26, 26, 26, 1.00)''\<rparr>"

definition cB :: ParsedColor where
  "cB = \<lparr>pc_r = toDouble (8 / 10), pc_g = toDouble (2 / 10), pc_b = toDouble (2 / 10), pc_a = 1,
          hex = ''#CC3333'', rgba = ''rgba(204, 51, 51, 1.00)''\<rparr>"

definition edgeColor :: ParsedColor where
  "edgeColor =
     \<lparr>pc_r = toDouble (564 / 1000), pc_g = toDouble (172 / 1000),
      pc_b = toDouble (2666666666666667 / 10000000000000000), pc_a = 1,
      hex = ''#902C44'', rgba = ''rgba(144, 44, 68, 1.00)''\<rparr>"

text \<open>Every radius value of a node, and of a forest in pre-order.\<close>

definition radiusValues :: "NodeData \<Rightarrow> number list" where
  "radiusValues d =
     (case cornerRadius d of
        None \<Rightarrow> []
      | Some (Uniform v) \<Rightarrow> [v]
      | Some (Corners topLeft topRight bottomLeft bottomRight) \<Rightarrow>
          [topLeft, topRight, bottomLeft, bottomRight])"

definition forestRadii :: "FigmaNode list \<Rightarrow> number list" where
  "forestRadii nodes = concat (map (\<lambda>n. radiusValues (ndata n)) (preorderForest nodes))"

text \<open>
  The flat list of spacing values as the specification words it: every padding side,
  margin side and gap that is defined, of the auto-layout records and then of the
  spacing records.
\<close>

definition optSides :: "Sides option \<Rightarrow> number list" where
  "optSides p = (case p of None \<Rightarrow> [] | Some s \<Rightarrow> [side_left s, side_right s, side_top s, side_bottom s])"

definition optNum :: "number option \<Rightarrow> number list" where
  "optNum g = (case g of None \<Rightarrow> [] | Some v \<Rightarrow> [v])"

definition specGather :: "ParsedDesign \<Rightarrow> number list" where
  "specGather pd =
     concat (map (\<lambda>l. optSides (Some (al_padding l)) @ [al_spacing l]) (autoLayouts pd))
     @ concat (map (\<lambda>s. optSides (padding s) @ optSides (margin s) @ optNum (gap s)) (spacing pd))"

text \<open>The naming thresholds of a spacing value, each with its range written out.\<close>

definition spacingNameRule :: "number \<Rightarrow> nat \<Rightarrow> string \<Rightarrow> bool" where
  "spacingNameRule v i name =
     ((v = 0 \<longrightarrow> name = ''none'')
      \<and> (v \<noteq> 0 \<and> v \<le> 4 \<longrightarrow> name = ''xs-'' @ showNat i)
      \<and> (4 < v \<and> v \<le> 8 \<longrightarrow> name = ''sm-'' @ showNat i)
      \<and> (8 < v \<and> v \<le> 16 \<longrightarrow> name = ''md-'' @ showNat i)
      \<and> (16 < v \<and> v \<le> 24 \<longrightarrow> name = ''lg-'' @ showNat i)
      \<and> (24 < v \<and> v \<le> 32 \<longrightarrow> name = ''xl-'' @ showNat i)
      \<and> (32 < v \<longrightarrow> name = ''xxl-'' @ showNat i))"

text \<open>The spacing values of a parsed forest that do not come from a margin.\<close>

definition spacingOrigins :: "FigmaNode list \<Rightarrow> number list" where
  "spacingOrigins nodes =
     concat (map layoutValues (extractAutoLayoutInfo nodes))
     @ concat (map (\<lambda>s. optSides (padding s) @ optNum (gap s)) (extractSpacing nodes))"

text \<open>A parsed design and a forest used as concrete inputs.\<close>

definition gatherDesign :: ParsedDesign where
  "gatherDesign =
     \<lparr>textStyles = [], colors = [],
      autoLayouts = [\<lparr>direction = VERTICAL,
                      al_padding = \<lparr>side_left = 16, side_right = 16, side_top = 8, side_bottom = 8\<rparr>,
                      al_spacing = 12\<rparr>],
      spacing = [\<lparr>padding = Some \<lparr>side_left = 16, side_right = 16, side_top = 8, side_bottom = 8\<rparr>,
                  margin = Some \<lparr>side_left = 40, side_right = 40, side_top = 0, side_bottom = 0\<rparr>,
                  gap = Some 12\<rparr>,
                 \<lparr>padding = None, margin = None, gap = Some 2\<rparr>],
      borderRadius = []\<rparr>"

definition spacingForest :: "FigmaNode list" where
  "spacingForest =
     [FigmaNode ((blank ''FRAME'')\<lparr>layoutMode := Some VERTICAL, paddingLeft := Some 16,
         paddingTop := Some 8, itemSpacing := Some 12\<rparr>)
        [FigmaNode ((blank ''FRAME'')\<lparr>itemSpacing := Some 0\<rparr>) [],
         FigmaNode ((blank ''TEXT'')\<lparr>paddingLeft := Some 0\<rparr>) []]]"

text \<open>
  First-occurrence deduplication by a key, and the step that both \<open>Map\<close>-based passes
  perform on each element: store it under its key unless the key is present.
\<close>

fun firstByKey :: "('a \<Rightarrow> 'k) \<Rightarrow> 'a list \<Rightarrow> 'a list" where
  "firstByKey key [] = []"
| "firstByKey key (x # xs) = x # firstByKey key (filter (\<lambda>y. key y \<noteq> key x) xs)"

definition addIfAbsent :: "('a \<Rightarrow> 'k) \<Rightarrow> ('a \<Rightarrow> 'v) \<Rightarrow> 'a \<Rightarrow> ('k, 'v) jsmap \<Rightarrow> ('k, 'v) jsmap" where
  "addIfAbsent key val x m = (if \<not> mapHas m (key x) then mapSet (key x) (val x) m else m)"









text \<open>The styles of the TEXT nodes of a forest, in pre-order.\<close>

definition textStyleOf :: "NodeData \<Rightarrow> TypeStyle list" where
  "textStyleOf d =
     (if node_type d = ''TEXT'' then (case style d of None \<Rightarrow> [] | Some s \<Rightarrow> [s]) else [])"

definition forestTextStyles :: "FigmaNode list \<Rightarrow> TypeStyle list" where
  "forestTextStyles nodes = concat (map (\<lambda>n. textStyleOf (ndata n)) (preorderForest nodes))"

text \<open>
  The triple that identifies a typography style, and the fields that a token takes
  over from its style.
\<close>

definition styleTriple :: "ParsedTextStyle \<Rightarrow> string \<times> number \<times> number" where
  "styleTriple sty = (fontFamily sty, fontSize sty, fontWeight sty)"

definition tokenTriple :: "TypographyToken \<Rightarrow> string \<times> number \<times> number" where
  "tokenTriple t = (ty_fontFamily t, ty_fontSize t, ty_fontWeight t)"

definition tripleKey :: "(number \<Rightarrow> string) \<Rightarrow> string \<times> number \<times> number \<Rightarrow> string" where
  "tripleKey str t = (case t of (f, s, w) \<Rightarrow> f @ ''-'' @ str s @ ''-'' @ str w)"

definition styleFields ::
  "ParsedTextStyle \<Rightarrow> (string \<times> number \<times> number) \<times> number \<times> number \<times> string option" where
  "styleFields sty = (styleTriple sty, lineHeight sty, letterSpacing sty, textCase sty)"

definition tokenFields ::
  "TypographyToken \<Rightarrow> (string \<times> number \<times> number) \<times> number \<times> number \<times> string option" where
  "tokenFields t = (tokenTriple t, ty_lineHeight t, ty_letterSpacing t, ty_textCase t)"

text \<open>
  A rendering of numbers is plain on a list of styles when it prints no font size and
  no font weight of the list with a hyphen and gives different sizes, and different
  weights, different strings. The runtime's rendering is plain on non-negative
  numbers that it prints in decimal notation without an exponent.
\<close>

definition plainRendering :: "(number \<Rightarrow> string) \<Rightarrow> ParsedTextStyle list \<Rightarrow> bool" where
  "plainRendering str styles =
     (\<forall>a \<in> set styles. \<forall>b \<in> set styles.
        CHR ''-'' \<notin> set (str (fontSize a)) \<and> CHR ''-'' \<notin> set (str (fontWeight a))
        \<and> (str (fontSize a) = str (fontSize b) \<longrightarrow> fontSize a = fontSize b)
        \<and> (str (fontWeight a) = str (fontWeight b) \<longrightarrow> fontWeight a = fontWeight b))"

text \<open>The naming thresholds of a typography style, each size band with its range written out.\<close>

definition typographyNameRule :: "number \<Rightarrow> number \<Rightarrow> string \<Rightarrow> bool" where
  "typographyNameRule sz wt name =
     ((32 \<le> sz \<longrightarrow> name = ''heading-'' @ (if 700 \<le> wt then ''bold'' else ''regular''))
      \<and> (24 \<le> sz \<and> sz < 32 \<longrightarrow>
           name = ''subheading-'' @ (if 600 \<le> wt then ''semibold'' else ''regular''))
      \<and> (18 \<le> sz \<and> sz < 24 \<longrightarrow>
           name = ''body-large-'' @ (if 500 \<le> wt then ''medium'' else ''regular''))
      \<and> (16 \<le> sz \<and> sz < 18 \<longrightarrow>
           name = ''body-'' @ (if 500 \<le> wt then ''medium'' else ''regular''))
      \<and> (14 \<le> sz \<and> sz < 16 \<longrightarrow>
           name = ''body-small-'' @ (if 500 \<le> wt then ''medium'' else ''regular''))
      \<and> (sz < 14 \<longrightarrow> name = ''caption-'' @ (if 500 \<le> wt then ''medium'' else ''regular'')))"




definition textNode :: "TypeStyle \<Rightarrow> FigmaNode" where
  "textNode s = FigmaNode ((blank ''TEXT'')\<lparr>style := Some s\<rparr>) []"

definition plainStyle :: TypeStyle where
  "plainStyle = \<lparr>st_fontFamily = Some ''Inter'', st_fontSize = Some 16, st_fontWeight = Some 400,
     st_lineHeight = None, st_letterSpacing = None, st_textCase = None\<rparr>"

definition parsedStyle :: "string \<Rightarrow> number \<Rightarrow> number \<Rightarrow> number \<Rightarrow> ParsedTextStyle" where
  "parsedStyle fam sz wt lh =
     \<lparr>fontFamily = fam, fontSize = sz, fontWeight = wt, lineHeight = lh,
      letterSpacing = 0, textCase = None\<rparr>"

definition dupStyles :: "ParsedTextStyle list" where
  "dupStyles =
     [parsedStyle ''Inter'' 32 700 40, parsedStyle ''Inter'' 16 400 24,
      parsedStyle ''Inter'' 32 700 48, parsedStyle ''Inter'' 16 700 24,
      parsedStyle ''Roboto'' 16 400 20, parsedStyle ''Inter'' 16 400 28,
      parsedStyle ''Inter-16'' 400 400 12]"

text \<open>
  Two styles with different triples and the same key: the hyphen that ends the first
  family is the sign of the second font size.
\<close>

definition hyphenStyles :: "ParsedTextStyle list" where
  "hyphenStyles = [parsedStyle ''A-'' 1 400 10, parsedStyle ''A'' (- 1) 400 20]"

section \<open>Basic facts\<close>

subsection \<open>Rounding to a double\<close>

text \<open>Facts that evaluate the rounding on numerals with the simplifier.\<close>

lemma floor_rat_numeral: "\<lfloor>numeral a / numeral b :: rat\<rfloor> = numeral a div numeral b"
  by (metis floor_divide_of_int_eq of_int_numeral)

lemma floor_rat_neg_numeral: "\<lfloor>- (numeral a / numeral b) :: rat\<rfloor> = - numeral a div numeral b"
  by (metis divide_minus_left floor_divide_of_int_eq of_int_neg_numeral of_int_numeral)

lemma floor_rat_one_numeral: "\<lfloor>1 / numeral b :: rat\<rfloor> = 1 div numeral b"
  by (metis floor_divide_of_int_eq of_int_numeral of_int_1)

lemmas dbl_eval = toDouble_def binade_def roundToUnit_def log2Up.simps log2Down.simps pow2_def
  roundTiesEven_def Let_def mulD_def addD_def divD_def floor_rat_numeral floor_rat_neg_numeral
  floor_rat_one_numeral


lemma pow2_powi: "pow2 e = 2 powi e"
  by (simp add: pow2_def power_int_def power_one_over inverse_eq_divide)

lemma pow2_pos [simp]: "0 < pow2 e"
  by (simp add: pow2_powi)




lemma pow2_zero [simp]: "pow2 0 = 1"
  by (simp add: pow2_def)









subsection \<open>Lists, maps and traversals\<close>

lemma mapIndexed_Nil [simp]: "mapIndexed f [] = []"
  by (simp add: mapIndexed_def)

lemma length_mapIndexed [simp]: "length (mapIndexed f xs) = length xs"
  by (simp add: mapIndexed_def)

lemma nth_mapIndexed: "i < length xs \<Longrightarrow> mapIndexed f xs ! i = f (xs ! i) i"
  by (simp add: mapIndexed_def)

lemma map_mapIndexed_const:
  assumes "\<And>x i. g (f x i) = h x"
  shows "map g (mapIndexed f xs) = map h xs"
  by (rule nth_equalityI) (simp_all add: nth_mapIndexed assms)

lemma fold_concat_map:
  assumes "\<And>x t. x \<in> set xs \<Longrightarrow> h x t = fold f (g x) t"
  shows "fold h xs s = fold f (concat (map g xs)) s"
  using assms by (induction xs arbitrary: s) simp_all

lemma walk_preorder: "walk visit n s = fold (\<lambda>m. visit (ndata m)) (preorder n) s"
proof (induction n arbitrary: s)
  case (FigmaNode d cs)
  show ?case
    using fold_concat_map [of cs "walk visit" "\<lambda>m. visit (ndata m)" preorder "visit d s"]
    by (simp add: FigmaNode.IH)
qed

lemma walk_forest:
  "fold (walk visit) nodes s = fold (\<lambda>m. visit (ndata m)) (preorderForest nodes) s"
  unfolding preorderForest_def by (rule fold_concat_map) (rule walk_preorder)


lemma set_setValues [simp]: "set (setValues xs) = set xs"
  by (induction xs rule: setValues.induct) auto

lemma distinct_setValues [simp]: "distinct (setValues xs)"
  by (induction xs rule: setValues.induct) auto

lemma setValues_distinct_id: "distinct xs \<Longrightarrow> setValues xs = xs"
proof (induction xs)
  case (Cons x xs)
  then have "filter (\<lambda>y. y \<noteq> x) xs = xs" by (auto intro: filter_True)
  with Cons show ?case by simp
qed simp

lemma sort_setValues_id:
  fixes xs :: "number list"
  assumes "sorted xs" "distinct xs"
  shows "sort (setValues xs) = xs"
  using assms by (simp add: setValues_distinct_id sorted_sort_id)

lemma mapHas_iff: "mapHas m k \<longleftrightarrow> k \<in> fst ` set m"
  by (simp add: mapHas_def map_of_eq_None_iff)

lemma mapSet_absent: "\<not> mapHas m k \<Longrightarrow> mapSet k v m = m @ [(k, v)]"
  by (induction m) (auto simp: mapHas_iff)

lemma fold_addIfAbsent:
  "mapValues (fold (addIfAbsent key val) xs m)
   = mapValues m @ map val (firstByKey key (filter (\<lambda>x. key x \<notin> fst ` set m) xs))"
proof (induction xs arbitrary: m)
  case Nil
  then show ?case by simp
next
  case (Cons x xs)
  show ?case
  proof (cases "mapHas m (key x)")
    case True
    then show ?thesis
      using Cons.IH [of m] by (simp add: addIfAbsent_def mapHas_iff)
  next
    case False
    then have a: "addIfAbsent key val x m = m @ [(key x, val x)]"
      by (simp add: addIfAbsent_def mapSet_absent)
    have f: "filter (\<lambda>y. key y \<notin> fst ` set (m @ [(key x, val x)])) xs
             = filter (\<lambda>y. key y \<noteq> key x) (filter (\<lambda>y. key y \<notin> fst ` set m) xs)"
      by (auto intro: filter_cong)
    have "mapValues (fold (addIfAbsent key val) (x # xs) m)
          = mapValues (fold (addIfAbsent key val) xs (m @ [(key x, val x)]))"
      by (simp add: a)
    also have "\<dots> = mapValues (m @ [(key x, val x)])
          @ map val (firstByKey key (filter (\<lambda>y. key y \<notin> fst ` set (m @ [(key x, val x)])) xs))"
      by (rule Cons.IH)
    also have "\<dots> = mapValues m
          @ map val (firstByKey key (filter (\<lambda>y. key y \<notin> fst ` set m) (x # xs)))"
      using False unfolding f by (simp add: mapHas_iff mapValues_def)
    finally show ?thesis .
  qed
qed

lemma fold_addIfAbsent_empty:
  "mapValues (fold (addIfAbsent key val) xs []) = map val (firstByKey key xs)"
  using fold_addIfAbsent [of key val xs "[]"] by (simp add: mapValues_def)

lemma set_firstByKey_subset: "set (firstByKey key xs) \<subseteq> set xs"
  by (induction key xs rule: firstByKey.induct) auto

lemma keys_firstByKey: "key ` set (firstByKey key xs) = key ` set xs"
  by (induction key xs rule: firstByKey.induct) auto

lemma distinct_keys_firstByKey: "distinct (map key (firstByKey key xs))"
proof (induction key xs rule: firstByKey.induct)
  case (2 key x xs)
  have "key x \<notin> key ` set (firstByKey key (filter (\<lambda>y. key y \<noteq> key x) xs))"
    using set_firstByKey_subset [of key "filter (\<lambda>y. key y \<noteq> key x) xs"] by auto
  with 2 show ?case by simp
qed simp


lemma firstByKey_inj:
  assumes "inj_on key (set xs)"
  shows "firstByKey key xs = setValues xs"
  using assms
proof (induction key xs rule: firstByKey.induct)
  case (2 key x xs)
  have e: "filter (\<lambda>y. key y \<noteq> key x) xs = filter (\<lambda>y. y \<noteq> x) xs"
    using "2.prems" by (intro filter_cong) (auto simp: inj_on_def)
  have "inj_on key (set (filter (\<lambda>y. key y \<noteq> key x) xs))"
    using "2.prems" by (auto simp: inj_on_def)
  with 2 show ?case by (simp add: e)
qed simp

lemma map_firstByKey: "map f (firstByKey (\<lambda>x. k (f x)) xs) = firstByKey k (map f xs)"
  by (induction "\<lambda>x. k (f x)" xs rule: firstByKey.induct) (simp_all add: filter_map comp_def)

section \<open>Color naming and categorization\<close>

lemma generateColorName_double: "generateColorName c i cols = fst (doubleColorClass c i)"
  by (simp add: generateColorName_def doubleColorClass_def codeBrightness_def Let_def)

lemma categorizeColor_double: "categorizeColor c i cols = snd (doubleColorClass c i)"
  by (simp add: categorizeColor_def doubleColorClass_def codeBrightness_def Let_def)

lemma token_double:
  assumes "i < length cols"
  shows "ct_name (generateColorTokens cols ! i) = fst (doubleColorClass (cols ! i) i)"
    and "ct_category (generateColorTokens cols ! i) = snd (doubleColorClass (cols ! i) i)"
  using assms
  by (simp_all add: generateColorTokens_def nth_mapIndexed generateColorName_double
      categorizeColor_double)

lemma tenth_brightness:
  "divD (addD (addD (mulD (toDouble (1 / 10)) 299) (mulD (toDouble (1 / 10)) 587))
      (mulD (toDouble (1 / 10)) 114)) 1000 < toDouble (3 / 10)"
  by (simp add: dbl_eval)

lemma dark_example:
  assumes "pc_r c = toDouble (1 / 10)" "pc_g c = toDouble (1 / 10)" "pc_b c = toDouble (1 / 10)"
  shows "doubleColorClass c i = (''neutral-'' @ showNat (i + 1) @ ''-dark'', Neutral)"
  using tenth_brightness by (simp add: doubleColorClass_def codeBrightness_def assms)

lemma red_brightness:
  "\<not> divD (addD (addD (mulD (toDouble (8 / 10)) 299) (mulD (toDouble (2 / 10)) 587))
      (mulD (toDouble (2 / 10)) 114)) 1000 < toDouble (3 / 10)"
  "\<not> toDouble (7 / 10) < divD (addD (addD (mulD (toDouble (8 / 10)) 299) (mulD (toDouble (2 / 10)) 587))
      (mulD (toDouble (2 / 10)) 114)) 1000"
  "toDouble (2 / 10) < toDouble (8 / 10)"
  by (simp_all add: dbl_eval)

lemma primary_example:
  assumes "pc_r c = toDouble (8 / 10)" "pc_g c = toDouble (2 / 10)" "pc_b c = toDouble (2 / 10)"
  shows "doubleColorClass c i = (''primary-'' @ showNat (i + 1), Primary)"
  using red_brightness by (simp add: doubleColorClass_def codeBrightness_def assms)

lemma edge_channels:
  "pc_r edgeColor = 5080060379673919 / 9007199254740992"
  "pc_g edgeColor = 3098476543630901 / 18014398509481984"
  "pc_b edgeColor = 2401919801264265 / 9007199254740992"
  by (simp_all add: edgeColor_def dbl_eval)

lemma edge_brightness: "codeBrightness edgeColor = toDouble (3 / 10)"
  by (simp add: codeBrightness_def edge_channels dbl_eval)

lemma edge_exact:
  "299 / 1000 * pc_r edgeColor + 587 / 1000 * pc_g edgeColor + 114 / 1000 * pc_b edgeColor
     < toDouble (3 / 10)"
  by (simp add: edge_channels dbl_eval)

lemma edge_spec_double: "specBrightnessD edgeColor < toDouble (3 / 10)"
  by (simp add: specBrightnessD_def edge_channels dbl_eval)

lemma threshold_below: "toDouble (3 / 10) < 3 / 10" "toDouble (3 / 10) < toDouble (7 / 10)"
  by (simp_all add: dbl_eval)

lemma edge_order: "pc_g edgeColor < pc_r edgeColor" "pc_b edgeColor < pc_r edgeColor"
  by (simp_all add: edge_channels)

lemma show_one:
  "showNat (0 + 1) = ''1''" "showNat (1 + 1) = ''2''" "showNat (Suc 0) = ''1''"
  "showNat (Suc (Suc 0)) = ''2''" "showNat 1 = ''1''" "showNat 2 = ''2''"
  by (simp_all add: showNat_def natToRadix.simps digitChar_def)

text \<open>
  Claim C2 as stated fails. The color with the doubles 0.564, 0.172 and
  0.2666666666666667 as channels (all between 0 and 1) has a brightness
  \<open>0.299 r + 0.587 g + 0.114 b\<close> below 0.3, in exact arithmetic and also when the
  formula is evaluated in doubles, so the claim makes it neutral-1-dark; the source
  computes \<open>(r * 299 + g * 587 + b * 114) / 1000\<close> in doubles, gets the double 0.3
  itself, which is not below 0.3, and returns primary-1 and primary.
\<close>

theorem color_classification_counterexample:
  "toDouble (pc_r edgeColor) = pc_r edgeColor
   \<and> toDouble (pc_g edgeColor) = pc_g edgeColor
   \<and> toDouble (pc_b edgeColor) = pc_b edgeColor
   \<and> 299 / 1000 * pc_r edgeColor + 587 / 1000 * pc_g edgeColor + 114 / 1000 * pc_b edgeColor
       < toDouble (3 / 10)
   \<and> toDouble (3 / 10) < 3 / 10
   \<and> specBrightnessD edgeColor < toDouble (3 / 10)
   \<and> specColorClass edgeColor 0 = (''neutral-1-dark'', Neutral)
   \<and> generateColorName edgeColor 0 [edgeColor] = ''primary-1''
   \<and> categorizeColor edgeColor 0 [edgeColor] = Primary"
proof -
  have d: "toDouble (pc_r edgeColor) = pc_r edgeColor" "toDouble (pc_g edgeColor) = pc_g edgeColor"
    "toDouble (pc_b edgeColor) = pc_b edgeColor"
    by (simp_all add: edge_channels dbl_eval)
  have s: "specColorClass edgeColor 0 = (''neutral-1-dark'', Neutral)"
    using edge_exact threshold_below(1) by (simp add: specColorClass_def show_one)
  have c: "doubleColorClass edgeColor 0 = (''primary-1'', Primary)"
    using threshold_below(2) edge_order
    by (simp add: doubleColorClass_def edge_brightness show_one)
  from d edge_exact threshold_below(1) edge_spec_double s c show ?thesis
    by (simp add: generateColorName_double categorizeColor_double)
qed

text \<open>
  Claim C2, amended. For every color at index \<open>i\<close>, the name and the category follow
  the five rules in their order of precedence on the brightness that the source
  computes, the double \<open>(r * 299 + g * 587 + b * 114) / 1000\<close> with every operation
  rounded, against the doubles 0.3 and 0.7: both functions agree with
  \<open>doubleColorClass\<close>, and so does the token at index \<open>i\<close> of
  \<open>generateColorTokens\<close>. The color (0.1, 0.1, 0.1) is neutral and named
  neutral-(i+1)-dark; the color (0.8, 0.2, 0.2) is primary and named primary-(i+1).
\<close>

theorem color_classification:
  "generateColorName c i cols = fst (doubleColorClass c i)
   \<and> categorizeColor c i cols = snd (doubleColorClass c i)
   \<and> (i < length cols \<longrightarrow>
        ct_name (generateColorTokens cols ! i) = fst (doubleColorClass (cols ! i) i)
        \<and> ct_category (generateColorTokens cols ! i) = snd (doubleColorClass (cols ! i) i))
   \<and> (pc_r c = toDouble (1 / 10) \<and> pc_g c = toDouble (1 / 10) \<and> pc_b c = toDouble (1 / 10) \<longrightarrow>
        generateColorName c i cols = ''neutral-'' @ showNat (i + 1) @ ''-dark''
        \<and> categorizeColor c i cols = Neutral)
   \<and> (pc_r c = toDouble (8 / 10) \<and> pc_g c = toDouble (2 / 10) \<and> pc_b c = toDouble (2 / 10) \<longrightarrow>
        generateColorName c i cols = ''primary-'' @ showNat (i + 1)
        \<and> categorizeColor c i cols = Primary)"
  using token_double [of i cols] dark_example [of c i] primary_example [of c i]
  by (simp add: generateColorName_double categorizeColor_double)

text \<open>The classification at the two example colors, as tokens 0 and 1 of a list.\<close>

theorem color_classification_witness:
  "(1::nat) < length [cA, cB]
   \<and> ct_name (generateColorTokens [cA, cB] ! 1) = ''primary-2''
   \<and> ct_category (generateColorTokens [cA, cB] ! 1) = Primary
   \<and> pc_r cA = toDouble (1 / 10) \<and> pc_g cA = toDouble (1 / 10) \<and> pc_b cA = toDouble (1 / 10)
   \<and> generateColorName cA 0 [cA, cB] = ''neutral-1-dark''
   \<and> categorizeColor cA 0 [cA, cB] = Neutral"
proof -
  have h: "(1::nat) < length [cA, cB]" by simp
  have a: "pc_r cA = toDouble (1 / 10) \<and> pc_g cA = toDouble (1 / 10) \<and> pc_b cA = toDouble (1 / 10)"
    by (simp add: cA_def)
  have b: "pc_r cB = toDouble (8 / 10) \<and> pc_g cB = toDouble (2 / 10) \<and> pc_b cB = toDouble (2 / 10)"
    by (simp add: cB_def)
  note A = color_classification [of cA 0 "[cA, cB]", THEN conjunct2, THEN conjunct2,
      THEN conjunct2, THEN conjunct1, THEN mp, OF a]
  note B = color_classification [of cB 1 "[cA, cB]", THEN conjunct2, THEN conjunct2,
      THEN conjunct2, THEN conjunct2, THEN mp, OF b]
  note T = color_classification [of cB 1 "[cA, cB]", THEN conjunct2, THEN conjunct2,
      THEN conjunct1, THEN mp, OF h]
  note N = color_classification [of cB 1 "[cA, cB]", THEN conjunct1]
  note C = color_classification [of cB 1 "[cA, cB]", THEN conjunct2, THEN conjunct1]
  from A have 1: "generateColorName cA 0 [cA, cB] = ''neutral-1-dark''"
    and 2: "categorizeColor cA 0 [cA, cB] = Neutral"
    by (simp_all add: show_one)
  from B have 3: "generateColorName cB 1 [cA, cB] = ''primary-2''"
    and 4: "categorizeColor cB 1 [cA, cB] = Primary"
    by (simp_all add: show_one)
  from T N C 3 4 have 5: "ct_name (generateColorTokens [cA, cB] ! 1) = ''primary-2''"
    and 6: "ct_category (generateColorTokens [cA, cB] ! 1) = Primary"
    by simp_all
  show ?thesis
    by (intro conjI) (rule h 5 6 a [THEN conjunct1] a [THEN conjunct2, THEN conjunct1]
        a [THEN conjunct2, THEN conjunct2] 1 2)+
qed

lemma name_neutral_iff:
  "(generateColorName c i cols = ''neutral-'' @ showNat (i + 1) @ ''-dark''
     \<or> generateColorName c i cols = ''neutral-'' @ showNat (i + 1) @ ''-light'')
   \<longleftrightarrow> categorizeColor c i cols = Neutral"
  by (simp add: generateColorName_def categorizeColor_def Let_def)

lemma name_primary_iff:
  "generateColorName c i cols = ''primary-'' @ showNat (i + 1) \<longleftrightarrow> categorizeColor c i cols = Primary"
  by (simp add: generateColorName_def categorizeColor_def Let_def)

lemma name_secondary_iff:
  "generateColorName c i cols = ''secondary-'' @ showNat (i + 1) \<longleftrightarrow> categorizeColor c i cols = Secondary"
  by (simp add: generateColorName_def categorizeColor_def Let_def)

lemma name_semantic_iff:
  "generateColorName c i cols = ''semantic-'' @ showNat (i + 1) \<longleftrightarrow> categorizeColor c i cols = Semantic"
  by (simp add: generateColorName_def categorizeColor_def Let_def)

lemma name_has_category_prefix:
  "prefix (categoryLabel (categorizeColor c i cols) @ ''-'') (generateColorName c i cols)"
  by (simp add: generateColorName_def categorizeColor_def Let_def)

lemma length_generateColorTokens: "length (generateColorTokens cols) = length cols"
  by (simp add: generateColorTokens_def)

lemma token_prefix:
  assumes "t \<in> set (generateColorTokens cols)"
  shows "prefix (categoryLabel (ct_category t) @ ''-'') (ct_name t)"
proof -
  from assms obtain i where "i < length cols" "t = generateColorTokens cols ! i"
    by (auto simp: in_set_conv_nth length_generateColorTokens)
  then show ?thesis
    by (simp add: generateColorTokens_def nth_mapIndexed name_has_category_prefix)
qed

text \<open>
  Claim C7. The name returned by \<open>generateColorName\<close> is of the form neutral-(i+1)-dark or
  neutral-(i+1)-light exactly when \<open>categorizeColor\<close> returns neutral, primary-(i+1) exactly
  when primary, secondary-(i+1) exactly when secondary and semantic-(i+1) exactly when
  semantic; and in every token of \<open>generateColorTokens\<close> the name starts with the
  category followed by a hyphen.
\<close>

theorem name_category_agree:
  "((generateColorName c i cols = ''neutral-'' @ showNat (i + 1) @ ''-dark''
      \<or> generateColorName c i cols = ''neutral-'' @ showNat (i + 1) @ ''-light'')
     \<longleftrightarrow> categorizeColor c i cols = Neutral)
   \<and> (generateColorName c i cols = ''primary-'' @ showNat (i + 1)
        \<longleftrightarrow> categorizeColor c i cols = Primary)
   \<and> (generateColorName c i cols = ''secondary-'' @ showNat (i + 1)
        \<longleftrightarrow> categorizeColor c i cols = Secondary)
   \<and> (generateColorName c i cols = ''semantic-'' @ showNat (i + 1)
        \<longleftrightarrow> categorizeColor c i cols = Semantic)
   \<and> (\<forall>t \<in> set (generateColorTokens cols).
         prefix (categoryLabel (ct_category t) @ ''-'') (ct_name t))"
  using name_neutral_iff [of c i cols] name_primary_iff [of c i cols]
    name_secondary_iff [of c i cols] name_semantic_iff [of c i cols] token_prefix [of _ cols]
  by blast

text \<open>The agreement at the second token of a list of two colors.\<close>

theorem name_category_agree_witness:
  "generateColorTokens [cA, cB] ! 1 \<in> set (generateColorTokens [cA, cB])
   \<and> ct_category (generateColorTokens [cA, cB] ! 1) = Primary
   \<and> prefix ''primary-'' (ct_name (generateColorTokens [cA, cB] ! 1))
   \<and> generateColorName cB 1 [cA, cB] = ''primary-2''"
proof -
  have m: "generateColorTokens [cA, cB] ! 1 \<in> set (generateColorTokens [cA, cB])"
    by (rule nth_mem) (simp add: length_generateColorTokens)
  have b: "pc_r cB = toDouble (8 / 10)" "pc_g cB = toDouble (2 / 10)" "pc_b cB = toDouble (2 / 10)"
    by (simp_all add: cB_def)
  have k: "categorizeColor cB 1 [cA, cB] = Primary"
    using primary_example [OF b, of 1] by (simp add: categorizeColor_double)
  have c: "ct_category (generateColorTokens [cA, cB] ! 1) = Primary"
    using k by (simp add: generateColorTokens_def nth_mapIndexed)
  note T = name_category_agree [of cB 1 "[cA, cB]"]
  from T [THEN conjunct2, THEN conjunct1] k
  have n: "generateColorName cB 1 [cA, cB] = ''primary-2''"
    by (simp add: show_one)
  from T [THEN conjunct2, THEN conjunct2, THEN conjunct2, THEN conjunct2, THEN bspec, OF m] c
  have p: "prefix ''primary-'' (ct_name (generateColorTokens [cA, cB] ! 1))"
    by simp
  show ?thesis
    by (intro conjI) (rule m c p n)+
qed

section \<open>Border radius\<close>

lemma set_fold_pushIfNew: "set (fold pushIfNew xs acc) = set acc \<union> set xs"
  by (induction xs arbitrary: acc) (auto simp: pushIfNew_def)

lemma visitBorderRadius_fold: "visitBorderRadius d acc = fold pushIfNew (radiusValues d) acc"
  by (simp add: visitBorderRadius_def radiusValues_def split: option.splits CornerRadius.splits)

lemma extractBorderRadius_walk: "extractBorderRadius n s = walk visitBorderRadius n s"
proof (induction n arbitrary: s)
  case (FigmaNode d cs)
  have "fold extractBorderRadius cs t = fold (walk visitBorderRadius) cs t" for t
    by (rule fold_cong) (auto simp: FigmaNode.IH)
  then show ?case by simp
qed

lemma fold_extractBorderRadius:
  "fold extractBorderRadius nodes acc = fold pushIfNew (forestRadii nodes) acc"
proof -
  have "fold extractBorderRadius nodes acc = fold (walk visitBorderRadius) nodes acc"
    by (rule fold_cong) (auto simp: extractBorderRadius_walk)
  also have "\<dots> = fold (\<lambda>m. visitBorderRadius (ndata m)) (preorderForest nodes) acc"
    by (rule walk_forest)
  also have "\<dots> = fold pushIfNew (forestRadii nodes) acc"
    unfolding forestRadii_def by (rule fold_concat_map) (rule visitBorderRadius_fold)
  finally show ?thesis .
qed

lemma borderRadius_set: "set (borderRadius (parseFigmaNodes str nodes)) = set (forestRadii nodes)"
  by (simp add: parseFigmaNodes_def fold_extractBorderRadius set_fold_pushIfNew)

lemma borderRadius_sorted: "sorted (borderRadius (parseFigmaNodes str nodes))"
  by (simp add: parseFigmaNodes_def)

lemma borderRadius_distinct: "distinct (borderRadius (parseFigmaNodes str nodes))"
  by (simp add: parseFigmaNodes_def)

lemma radius_token_values:
  "map br_value (generateBorderRadiusTokens vals) = sort (setValues vals)"
  unfolding generateBorderRadiusTokens_def Let_def
  by (rule map_mapIndexed_const [where h = "\<lambda>v. v", simplified]) simp

text \<open>
  Claim C8. For every forest, whatever mix of single-number and four-corner radii its
  nodes carry, the \<open>borderRadius\<close> sequence returned by \<open>parseFigmaNodes\<close> is sorted
  ascending, has no duplicate value, and holds exactly the radius values of the forest
  (each corner of a four-corner record on its own); the border-radius tokens carry
  the same sequence of values.
\<close>

theorem border_radius_sorted_distinct:
  "sorted (borderRadius (parseFigmaNodes str nodes))
   \<and> distinct (borderRadius (parseFigmaNodes str nodes))
   \<and> set (borderRadius (parseFigmaNodes str nodes)) = set (forestRadii nodes)
   \<and> map br_value (generateBorderRadiusTokens (borderRadius (parseFigmaNodes str nodes)))
       = borderRadius (parseFigmaNodes str nodes)"
  using borderRadius_sorted [of str nodes] borderRadius_distinct [of str nodes]
    borderRadius_set [of str nodes]
  by (simp add: radius_token_values sort_setValues_id)

section \<open>Spacing tokens\<close>

lemma spacingValues_spec:
  "spacingValues s = optSides (padding s) @ optSides (margin s) @ optNum (gap s)"
  by (cases "padding s"; cases "margin s"; cases "gap s")
     (simp_all add: spacingValues_def optSides_def optNum_def)

lemma allSpacingValues_spec: "allSpacingValues pd = specGather pd"
proof -
  have "spacingValues = (\<lambda>s. optSides (padding s) @ optSides (margin s) @ optNum (gap s))"
    by (rule ext) (rule spacingValues_spec)
  moreover have "layoutValues = (\<lambda>l. optSides (Some (al_padding l)) @ [al_spacing l])"
    by (rule ext) (simp add: layoutValues_def optSides_def)
  ultimately show ?thesis
    by (simp add: allSpacingValues_def specGather_def)
qed

lemma spacing_token_values: "map sp_value (generateSpacingTokens vals) = sort (setValues vals)"
  unfolding generateSpacingTokens_def Let_def
  by (rule map_mapIndexed_const [where h = "\<lambda>v. v", simplified]) simp

lemma length_generateSpacingTokens:
  "length (generateSpacingTokens vals) = length (sort (setValues vals))"
  by (simp add: generateSpacingTokens_def)

lemma spacingName_rule: "spacingNameRule v i (spacingName v i)"
  by (simp add: spacingNameRule_def spacingName_def)

lemma spacing_token_nth:
  assumes "i < length (generateSpacingTokens vals)"
  shows "sp_name (generateSpacingTokens vals ! i) = spacingName (sp_value (generateSpacingTokens vals ! i)) i"
    and "sp_category (generateSpacingTokens vals ! i) = Gap"
  using assms by (simp_all add: generateSpacingTokens_def nth_mapIndexed)

lemma spacing_token_rule:
  assumes "i < length (generateSpacingTokens vals)"
  shows "spacingNameRule (sp_value (generateSpacingTokens vals ! i)) i (sp_name (generateSpacingTokens vals ! i))"
  using spacing_token_nth(1) [OF assms] spacingName_rule by simp

lemma spacing_example:
  "map sp_name (generateSpacingTokens [0, 2, 6, 20]) = [''none'', ''xs-1'', ''sm-2'', ''lg-3'']"
  by code_simp

text \<open>
  Claim C4. \<open>generateDesignTokens\<close> gathers every defined padding, margin and gap value
  of the auto-layout and spacing records into one flat list and names the spacing
  tokens from it. The token values are that list deduplicated and sorted ascending;
  the token at position \<open>i\<close> of the sorted sequence is named by the thresholds
  (0: none; up to 4: xs-i; up to 8: sm-i; up to 16: md-i; up to 24: lg-i; up to 32:
  xl-i; above: xxl-i) and has category gap. The values 0, 2, 6, 20 give the names
  none, xs-1, sm-2, lg-3.
\<close>

theorem spacing_token_synthesis:
  "allSpacingValues pd = specGather pd
   \<and> tk_spacing (generateDesignTokens str pd) = generateSpacingTokens (specGather pd)
   \<and> sorted (map sp_value (generateSpacingTokens vals))
   \<and> distinct (map sp_value (generateSpacingTokens vals))
   \<and> set (map sp_value (generateSpacingTokens vals)) = set vals
   \<and> (\<forall>i < length (generateSpacingTokens vals).
         spacingNameRule (sp_value (generateSpacingTokens vals ! i)) i
           (sp_name (generateSpacingTokens vals ! i))
         \<and> sp_category (generateSpacingTokens vals ! i) = Gap)
   \<and> map sp_name (generateSpacingTokens [0, 2, 6, 20]) = [''none'', ''xs-1'', ''sm-2'', ''lg-3'']"
proof -
  have "tk_spacing (generateDesignTokens str pd) = generateSpacingTokens (specGather pd)"
    by (simp add: generateDesignTokens_def allSpacingValues_spec)
  moreover have "sorted (map sp_value (generateSpacingTokens vals))"
    and "distinct (map sp_value (generateSpacingTokens vals))"
    and "set (map sp_value (generateSpacingTokens vals)) = set vals"
    by (simp_all add: spacing_token_values)
  ultimately show ?thesis
    using allSpacingValues_spec spacing_token_rule spacing_token_nth(2) spacing_example
    by blast
qed

text \<open>The second token of an unsorted list with a duplicate, and the tokens of a design with a margin.\<close>

theorem spacing_token_synthesis_witness:
  "(1::nat) < length (generateSpacingTokens [20, 2, 0, 6, 2])
   \<and> sp_value (generateSpacingTokens [20, 2, 0, 6, 2] ! 1) = 2
   \<and> sp_name (generateSpacingTokens [20, 2, 0, 6, 2] ! 1) = ''xs-1''
   \<and> sp_category (generateSpacingTokens [20, 2, 0, 6, 2] ! 1) = Gap
   \<and> map sp_value (tk_spacing (generateDesignTokens intStr gatherDesign)) = [0, 2, 8, 12, 16, 40]
   \<and> map sp_name (tk_spacing (generateDesignTokens intStr gatherDesign))
       = [''none'', ''xs-1'', ''sm-2'', ''md-3'', ''md-4'', ''xxl-5'']"
proof -
  have h: "(1::nat) < length (generateSpacingTokens [20, 2, 0, 6, 2])" by code_simp
  have v: "sp_value (generateSpacingTokens [20, 2, 0, 6, 2] ! 1) = 2" by code_simp
  have s: "showNat 1 = ''1''" by code_simp
  have g: "specGather gatherDesign = [16, 16, 8, 8, 12, 16, 16, 8, 8, 40, 40, 0, 0, 12, 2]"
    by code_simp
  have t: "map sp_value (generateSpacingTokens [16, 16, 8, 8, 12, 16, 16, 8, 8, 40, 40, 0, 0, 12, 2])
             = [0, 2, 8, 12, 16, 40]"
    and n: "map sp_name (generateSpacingTokens [16, 16, 8, 8, 12, 16, 16, 8, 8, 40, 40, 0, 0, 12, 2])
             = [''none'', ''xs-1'', ''sm-2'', ''md-3'', ''md-4'', ''xxl-5'']"
    by code_simp+
  note T = spacing_token_synthesis [of gatherDesign intStr "[20, 2, 0, 6, 2]"]
  from T h v s have "sp_name (generateSpacingTokens [20, 2, 0, 6, 2] ! 1) = ''xs-1''"
    by (simp add: spacingNameRule_def)
  moreover from T h have "sp_category (generateSpacingTokens [20, 2, 0, 6, 2] ! 1) = Gap"
    by simp
  moreover from T g t n
  have "map sp_value (tk_spacing (generateDesignTokens intStr gatherDesign)) = [0, 2, 8, 12, 16, 40]"
    and "map sp_name (tk_spacing (generateDesignTokens intStr gatherDesign))
       = [''none'', ''xs-1'', ''sm-2'', ''md-3'', ''md-4'', ''xxl-5'']"
    by simp_all
  ultimately show ?thesis using h v by blast
qed

lemma spacingDataOf_margin: "margin (spacingDataOf d) = None"
  by (simp add: spacingDataOf_def Let_def split: option.splits)

lemma visitSpacing_margin:
  assumes "\<forall>s \<in> set acc. margin s = None"
  shows "\<forall>s \<in> set (visitSpacing d acc). margin s = None"
  using assms by (simp add: visitSpacing_def Let_def spacingDataOf_margin)

lemma fold_visit_margin:
  assumes "\<forall>s \<in> set acc. margin s = None"
  shows "\<forall>s \<in> set (fold (\<lambda>m. visitSpacing (ndata m)) ns acc). margin s = None"
  using assms
proof (induction ns arbitrary: acc)
  case Nil
  then show ?case by simp
next
  case (Cons n ns)
  from Cons.prems have "\<forall>s \<in> set (visitSpacing (ndata n) acc). margin s = None"
    by (rule visitSpacing_margin)
  then have "\<forall>s \<in> set (fold (\<lambda>m. visitSpacing (ndata m)) ns (visitSpacing (ndata n) acc)).
      margin s = None"
    by (rule Cons.IH)
  then show ?case by simp
qed

lemma traverseSpacing_walk: "traverseSpacing n s = walk visitSpacing n s"
proof (induction n arbitrary: s)
  case (FigmaNode d cs)
  have "fold traverseSpacing cs t = fold (walk visitSpacing) cs t" for t
    by (rule fold_cong) (auto simp: FigmaNode.IH)
  then show ?case by simp
qed

lemma extractSpacing_preorder:
  "extractSpacing nodes = fold (\<lambda>m. visitSpacing (ndata m)) (preorderForest nodes) []"
proof -
  have "fold traverseSpacing nodes [] = fold (walk visitSpacing) nodes []"
    by (rule fold_cong) (auto simp: traverseSpacing_walk)
  then show ?thesis by (simp add: extractSpacing_def walk_forest)
qed

lemma extractSpacing_margin: "s \<in> set (extractSpacing nodes) \<Longrightarrow> margin s = None"
  using fold_visit_margin [of "[]" "preorderForest nodes"] by (simp add: extractSpacing_preorder)

lemma allSpacingValues_origins:
  "allSpacingValues (parseFigmaNodes str nodes) = spacingOrigins nodes"
proof -
  have "map spacingValues (extractSpacing nodes)
        = map (\<lambda>s. optSides (padding s) @ optNum (gap s)) (extractSpacing nodes)"
    by (rule map_cong) (simp_all add: spacingValues_spec extractSpacing_margin optSides_def)
  then have "concat (map spacingValues (extractSpacing nodes))
        = concat (map (\<lambda>s. optSides (padding s) @ optNum (gap s)) (extractSpacing nodes))"
    by (rule arg_cong)
  then show ?thesis
    by (simp add: allSpacingValues_def parseFigmaNodes_def spacingOrigins_def)
qed

text \<open>
  Claim C10. No record returned by \<open>extractSpacing\<close> has a margin, so the four margin
  reads of the synthesizer yield nothing on it: the flat list of spacing values of a
  parsed forest is made of the auto-layout paddings and item spacings and of the
  padding sides and gaps of the spacing records, and the spacing token values of
  \<open>generateDesignTokens\<close> are exactly the values of that list.
\<close>

theorem margin_never_produced:
  "(\<forall>s \<in> set (extractSpacing nodes). margin s = None)
   \<and> (\<forall>s \<in> set (extractSpacing nodes).
         definedValues [map_option side_left (margin s), map_option side_right (margin s),
           map_option side_top (margin s), map_option side_bottom (margin s)] = [])
   \<and> allSpacingValues (parseFigmaNodes str nodes) = spacingOrigins nodes
   \<and> set (map sp_value (tk_spacing (generateDesignTokens str (parseFigmaNodes str nodes))))
       = set (spacingOrigins nodes)"
proof -
  have "set (map sp_value (tk_spacing (generateDesignTokens str (parseFigmaNodes str nodes))))
       = set (spacingOrigins nodes)"
    by (simp add: generateDesignTokens_def spacing_token_values allSpacingValues_origins)
  then show ?thesis
    using extractSpacing_margin [of _ nodes] allSpacingValues_origins [of str nodes]
    by simp
qed

text \<open>A frame with two paddings and an item spacing, over a child with item spacing 0.\<close>

theorem margin_never_produced_witness:
  "\<lparr>padding = None, margin = None, gap = Some 0\<rparr> \<in> set (extractSpacing spacingForest)
   \<and> margin \<lparr>padding = None, margin = None, gap = Some (0::number)\<rparr> = None
   \<and> spacingOrigins spacingForest = [16, 0, 8, 0, 12, 16, 0, 8, 0, 12, 0]
   \<and> map sp_value (tk_spacing (generateDesignTokens intStr (parseFigmaNodes intStr spacingForest)))
       = [0, 8, 12, 16]"
proof -
  have m: "\<lparr>padding = None, margin = None, gap = Some 0\<rparr> \<in> set (extractSpacing spacingForest)"
    by code_simp
  have o: "spacingOrigins spacingForest = [16, 0, 8, 0, 12, 16, 0, 8, 0, 12, 0]"
    by code_simp
  have t: "map sp_value (tk_spacing (generateDesignTokens intStr (parseFigmaNodes intStr spacingForest)))
       = [0, 8, 12, 16]"
    by code_simp
  from margin_never_produced [of spacingForest intStr] m o t show ?thesis
    by simp
qed

section \<open>Color extraction\<close>



















section \<open>Typography tokens\<close>

lemma uniqueStyles_first:
  "mapValues (fold (addUniqueStyle str) styles []) = firstByKey (typographyKey str) styles"
proof -
  have "addUniqueStyle str = addIfAbsent (typographyKey str) (\<lambda>s. s)"
    by (intro ext) (simp add: addUniqueStyle_def addIfAbsent_def Let_def)
  then show ?thesis
    using fold_addIfAbsent_empty [of "typographyKey str" "\<lambda>s. s" styles] by simp
qed

lemma typography_fields:
  "map tokenFields (generateTypographyTokens str styles)
   = map styleFields (firstByKey (typographyKey str) styles)"
  unfolding generateTypographyTokens_def Let_def uniqueStyles_first
  by (rule map_mapIndexed_const) (simp add: tokenFields_def tokenTriple_def styleFields_def styleTriple_def)

lemma typography_triples:
  "map tokenTriple (generateTypographyTokens str styles)
   = map styleTriple (firstByKey (typographyKey str) styles)"
  unfolding generateTypographyTokens_def Let_def uniqueStyles_first
  by (rule map_mapIndexed_const) (simp add: tokenTriple_def styleTriple_def)

lemma typographyKey_triple: "typographyKey str sty = tripleKey str (styleTriple sty)"
  by (simp add: typographyKey_def tripleKey_def styleTriple_def)

lemma typography_distinct: "distinct (map tokenTriple (generateTypographyTokens str styles))"
proof -
  have "distinct (map (typographyKey str) (firstByKey (typographyKey str) styles))"
    by (rule distinct_keys_firstByKey)
  moreover have "map (typographyKey str) (firstByKey (typographyKey str) styles)
      = map (tripleKey str) (map styleTriple (firstByKey (typographyKey str) styles))"
    by (simp add: typographyKey_triple)
  ultimately have "distinct (map styleTriple (firstByKey (typographyKey str) styles))"
    by (simp only: distinct_map)
  then show ?thesis by (simp add: typography_triples)
qed

text \<open>A string is split in one way only at its last occurrence of a character.\<close>

lemma split_at_last:
  assumes "c \<notin> set ys" "c \<notin> set ys'" "xs @ c # ys = xs' @ c # ys'"
  shows "xs = xs' \<and> ys = ys'"
proof -
  have l: "takeWhile (\<lambda>x. x \<noteq> c) (rev zs @ c # ws) = rev zs" if "c \<notin> set zs" for zs ws
    using that by (auto simp: takeWhile_tail)
  from assms(3) have "rev (xs @ c # ys) = rev (xs' @ c # ys')" by (simp only:)
  then have "rev ys @ c # rev xs = rev ys' @ c # rev xs'" by simp
  then have "takeWhile (\<lambda>x. x \<noteq> c) (rev ys @ c # rev xs)
      = takeWhile (\<lambda>x. x \<noteq> c) (rev ys' @ c # rev xs')"
    by (simp only:)
  then have "rev ys = rev ys'" by (simp only: l [OF assms(1)] l [OF assms(2)])
  then have "ys = ys'" by simp
  with assms(3) show ?thesis by simp
qed

lemma tripleKey_eq:
  assumes "CHR ''-'' \<notin> set (str s)" "CHR ''-'' \<notin> set (str w)"
    and "CHR ''-'' \<notin> set (str s')" "CHR ''-'' \<notin> set (str w')"
    and "tripleKey str (f, s, w) = tripleKey str (f', s', w')"
  shows "f = f' \<and> str s = str s' \<and> str w = str w'"
proof -
  from assms(5) have "(f @ ''-'' @ str s) @ CHR ''-'' # str w = (f' @ ''-'' @ str s') @ CHR ''-'' # str w'"
    by (simp add: tripleKey_def)
  from split_at_last [OF assms(2,4) this]
  have 1: "f @ CHR ''-'' # str s = f' @ CHR ''-'' # str s'" and 2: "str w = str w'"
    by simp_all
  from split_at_last [OF assms(1,3) 1] 2 show ?thesis by simp
qed

lemma plain_key_iff:
  assumes "plainRendering str styles" "a \<in> set styles" "b \<in> set styles"
  shows "typographyKey str a = typographyKey str b \<longleftrightarrow> styleTriple a = styleTriple b"
proof
  assume k: "typographyKey str a = typographyKey str b"
  from assms have h: "CHR ''-'' \<notin> set (str (fontSize a))" "CHR ''-'' \<notin> set (str (fontWeight a))"
    "CHR ''-'' \<notin> set (str (fontSize b))" "CHR ''-'' \<notin> set (str (fontWeight b))"
    and i: "str (fontSize a) = str (fontSize b) \<longrightarrow> fontSize a = fontSize b"
    "str (fontWeight a) = str (fontWeight b) \<longrightarrow> fontWeight a = fontWeight b"
    unfolding plainRendering_def by blast+
  from k have "tripleKey str (fontFamily a, fontSize a, fontWeight a)
      = tripleKey str (fontFamily b, fontSize b, fontWeight b)"
    by (simp add: typographyKey_def tripleKey_def)
  from tripleKey_eq [OF h this] i show "styleTriple a = styleTriple b"
    by (simp add: styleTriple_def)
next
  assume "styleTriple a = styleTriple b"
  then show "typographyKey str a = typographyKey str b"
    by (simp add: typographyKey_triple)
qed

lemma firstByKey_cong:
  assumes "\<forall>a \<in> set xs. \<forall>b \<in> set xs. k a = k b \<longleftrightarrow> k' a = k' b"
  shows "firstByKey k xs = firstByKey k' xs"
  using assms
proof (induction k xs rule: firstByKey.induct)
  case (1 k)
  show ?case by simp
next
  case (2 k x xs)
  have f: "filter (\<lambda>y. k y \<noteq> k x) xs = filter (\<lambda>y. k' y \<noteq> k' x) xs"
    using "2.prems" by (intro filter_cong) auto
  have "\<forall>a \<in> set (filter (\<lambda>y. k y \<noteq> k x) xs). \<forall>b \<in> set (filter (\<lambda>y. k y \<noteq> k x) xs).
      k a = k b \<longleftrightarrow> k' a = k' b"
    using "2.prems" by auto
  then have "firstByKey k (filter (\<lambda>y. k y \<noteq> k x) xs)
      = firstByKey k' (filter (\<lambda>y. k y \<noteq> k x) xs)"
    by (rule "2.IH")
  then show ?case by (simp add: f)
qed

lemma typography_exact:
  assumes "plainRendering str styles"
  shows "map tokenFields (generateTypographyTokens str styles)
     = map styleFields (firstByKey styleTriple styles)"
proof -
  have "firstByKey (typographyKey str) styles = firstByKey styleTriple styles"
    by (rule firstByKey_cong) (simp add: plain_key_iff [OF assms])
  then show ?thesis by (simp add: typography_fields)
qed

lemma typographyName_rule:
  "typographyNameRule (fontSize sty) (fontWeight sty) (generateTypographyName sty i)"
  by (simp add: typographyNameRule_def generateTypographyName_def Let_def)

lemma length_generateTypographyTokens:
  "length (generateTypographyTokens str styles) = length (firstByKey (typographyKey str) styles)"
  by (simp add: generateTypographyTokens_def Let_def uniqueStyles_first)

lemma typography_token_rule:
  assumes "i < length (generateTypographyTokens str styles)"
  shows "typographyNameRule (ty_fontSize (generateTypographyTokens str styles ! i))
           (ty_fontWeight (generateTypographyTokens str styles ! i))
           (ty_name (generateTypographyTokens str styles ! i))"
  using assms typographyName_rule
  by (simp add: generateTypographyTokens_def Let_def uniqueStyles_first nth_mapIndexed)

lemma heading_bold:
  "fontSize sty = 32 \<and> fontWeight sty = 700 \<Longrightarrow> generateTypographyName sty i = ''heading-bold''"
  by (simp add: generateTypographyName_def)

lemma body_regular:
  "fontSize sty = 16 \<and> fontWeight sty = 400 \<Longrightarrow> generateTypographyName sty i = ''body-regular''"
  by (simp add: generateTypographyName_def)

text \<open>
  Claim C5 as stated fails. The styles (A-, 1, 400) and (A, -1, 400) have different
  triples and the same key \<open>A--1-400\<close>, so the pass keeps the first only: a
  deduplication on the triple would keep both.
\<close>

theorem typography_key_collision_counterexample:
  "map styleTriple hyphenStyles = [(''A-'', 1, 400), (''A'', - 1, 400)]
   \<and> setValues (map styleTriple hyphenStyles) = [(''A-'', 1, 400), (''A'', - 1, 400)]
   \<and> map (typographyKey intStr) hyphenStyles = [''A--1-400'', ''A--1-400'']
   \<and> map tokenTriple (generateTypographyTokens intStr hyphenStyles) = [(''A-'', 1, 400)]"
  by code_simp

text \<open>
  Claim C5, amended. \<open>generateTypographyTokens\<close> keeps the first style of every key
  string \<open>family-size-weight\<close>. No two tokens of its output have the same (fontFamily,
  fontSize, fontWeight), whatever duplicates the input has. Where the rendering of
  the numbers is plain on the input (no hyphen in a rendered size or weight, and
  different numbers rendered differently), the pass is the deduplication on the
  triple: the tokens are the first style of every triple, in order of first
  occurrence, with the family, size, weight, line height, letter spacing and text
  case of that style. Each token is named from its font size, largest band first: at
  least 32 heading (bold from weight 700), at least 24 subheading (semibold from
  600), at least 18 body-large, at least 16 body, at least 14 body-small, below
  caption (each medium from 500), and regular otherwise. Size 32 with weight 700 is
  heading-bold; size 16 with weight 400 is body-regular.
\<close>

theorem typography_tokens:
  "distinct (map tokenTriple (generateTypographyTokens str styles))
   \<and> map tokenFields (generateTypographyTokens str styles)
       = map styleFields (firstByKey (typographyKey str) styles)
   \<and> (plainRendering str styles \<longrightarrow>
        map tokenFields (generateTypographyTokens str styles)
          = map styleFields (firstByKey styleTriple styles))
   \<and> (\<forall>i < length (generateTypographyTokens str styles).
        typographyNameRule (ty_fontSize (generateTypographyTokens str styles ! i))
          (ty_fontWeight (generateTypographyTokens str styles ! i))
          (ty_name (generateTypographyTokens str styles ! i)))
   \<and> (fontSize sty = 32 \<and> fontWeight sty = 700 \<longrightarrow> generateTypographyName sty i = ''heading-bold'')
   \<and> (fontSize sty = 16 \<and> fontWeight sty = 400 \<longrightarrow> generateTypographyName sty i = ''body-regular'')"
  using typography_distinct [of str styles] typography_fields [of str styles]
    typography_exact [of str styles] typography_token_rule [of _ str styles]
    heading_bold [of sty i] body_regular [of sty i]
  by blast

text \<open>
  Seven styles: two repeat a triple with another line height, and the others differ
  from the first ones in the weight only, in the family only, or by a hyphen in the
  family.
\<close>

theorem typography_tokens_witness:
  "map tokenFields (generateTypographyTokens intStr dupStyles)
     = [((''Inter'', 32, 700), 40, 0, None), ((''Inter'', 16, 400), 24, 0, None),
        ((''Inter'', 16, 700), 24, 0, None), ((''Roboto'', 16, 400), 20, 0, None),
        ((''Inter-16'', 400, 400), 12, 0, None)]
   \<and> map ty_name (generateTypographyTokens intStr dupStyles)
     = [''heading-bold'', ''body-regular'', ''body-medium'', ''body-regular'', ''heading-regular'']
   \<and> (2::nat) < length (generateTypographyTokens intStr dupStyles)
   \<and> ty_name (generateTypographyTokens intStr dupStyles ! 2) = ''body-medium''
   \<and> fontSize (parsedStyle ''Inter'' 16 400 24) = 16 \<and> fontWeight (parsedStyle ''Inter'' 16 400 24) = 400
   \<and> generateTypographyName (parsedStyle ''Inter'' 16 400 24) 1 = ''body-regular''"
proof -
  have h: "plainRendering intStr dupStyles"
    unfolding plainRendering_def by code_simp
  have s: "map styleFields (firstByKey styleTriple dupStyles)
     = [((''Inter'', 32, 700), 40, 0, None), ((''Inter'', 16, 400), 24, 0, None),
        ((''Inter'', 16, 700), 24, 0, None), ((''Roboto'', 16, 400), 20, 0, None),
        ((''Inter-16'', 400, 400), 12, 0, None)]"
    by code_simp
  have l: "map ty_name (generateTypographyTokens intStr dupStyles)
     = [''heading-bold'', ''body-regular'', ''body-medium'', ''body-regular'', ''heading-regular'']"
    by code_simp
  have n: "(2::nat) < length (generateTypographyTokens intStr dupStyles)"
    by code_simp
  have v: "ty_fontSize (generateTypographyTokens intStr dupStyles ! 2) = 16"
    "ty_fontWeight (generateTypographyTokens intStr dupStyles ! 2) = 700"
    by code_simp+
  have p: "fontSize (parsedStyle ''Inter'' 16 400 24) = 16
      \<and> fontWeight (parsedStyle ''Inter'' 16 400 24) = 400"
    by (simp add: parsedStyle_def)
  note T = typography_tokens [of intStr dupStyles "parsedStyle ''Inter'' 16 400 24" 1]
  note D = T [THEN conjunct2, THEN conjunct2, THEN conjunct1, THEN mp, OF h]
  note E = T [THEN conjunct2, THEN conjunct2, THEN conjunct2, THEN conjunct1,
      THEN spec, THEN mp, OF n]
  note G = T [THEN conjunct2, THEN conjunct2, THEN conjunct2, THEN conjunct2,
      THEN conjunct2, THEN mp, OF p]
  from D s have 1: "map tokenFields (generateTypographyTokens intStr dupStyles)
     = [((''Inter'', 32, 700), 40, 0, None), ((''Inter'', 16, 400), 24, 0, None),
        ((''Inter'', 16, 700), 24, 0, None), ((''Roboto'', 16, 400), 20, 0, None),
        ((''Inter-16'', 400, 400), 12, 0, None)]"
    by (simp only:)
  from E have 2: "ty_name (generateTypographyTokens intStr dupStyles ! 2) = ''body-medium''"
    by (simp add: v typographyNameRule_def)
  show ?thesis
    by (intro conjI) (rule 1 l n 2 G p [THEN conjunct1] p [THEN conjunct2])+
qed

section \<open>Text style extraction\<close>

lemma traverseTextStyles_walk: "traverseTextStyles str n s = walk (visitTextStyle str) n s"
proof (induction n arbitrary: s)
  case (FigmaNode d cs)
  have "fold (traverseTextStyles str) cs t = fold (walk (visitTextStyle str)) cs t" for t
    by (rule fold_cong) (auto simp: FigmaNode.IH)
  then show ?case by simp
qed

lemma visitTextStyle_fold:
  "visitTextStyle str d m = fold (addIfAbsent (textStyleKey str) parseTextStyle) (textStyleOf d) m"
  by (simp add: visitTextStyle_def textStyleOf_def addIfAbsent_def Let_def split: option.splits)

lemma fold_traverseTextStyles:
  "fold (traverseTextStyles str) nodes m
   = fold (addIfAbsent (textStyleKey str) parseTextStyle) (forestTextStyles nodes) m"
proof -
  have "fold (traverseTextStyles str) nodes m = fold (walk (visitTextStyle str)) nodes m"
    by (rule fold_cong) (auto simp: traverseTextStyles_walk)
  also have "\<dots> = fold (\<lambda>n. visitTextStyle str (ndata n)) (preorderForest nodes) m"
    by (rule walk_forest)
  also have "\<dots> = fold (addIfAbsent (textStyleKey str) parseTextStyle) (forestTextStyles nodes) m"
    unfolding forestTextStyles_def by (rule fold_concat_map) (rule visitTextStyle_fold)
  finally show ?thesis .
qed

lemma extractTextStyles_first:
  "extractTextStyles str nodes
   = map parseTextStyle (firstByKey (textStyleKey str) (forestTextStyles nodes))"
  by (simp add: extractTextStyles_def fold_traverseTextStyles fold_addIfAbsent_empty)

lemma lineHeight_pair:
  "st_lineHeight s = Some (ValueUnit v u) \<Longrightarrow> lineHeight (parseTextStyle s) = v"
  by (simp add: parseTextStyle_def)

lemma lineHeight_number:
  "st_lineHeight s = Some (Num v) \<Longrightarrow> v \<noteq> 0 \<Longrightarrow> lineHeight (parseTextStyle s) = v"
  by (simp add: parseTextStyle_def orNum_def)

lemma lineHeight_default:
  "st_lineHeight s = None \<or> st_lineHeight s = Some (Num 0) \<Longrightarrow>
     lineHeight (parseTextStyle s) = fontSize (parseTextStyle s)"
  by (auto simp: parseTextStyle_def orNum_def)

lemma fontSize_default:
  "fontSize (parseTextStyle s) = (case st_fontSize s of None \<Rightarrow> 16 | Some z \<Rightarrow> if z = 0 then 16 else z)"
  by (simp add: parseTextStyle_def orNum_def)

lemma letterSpacing_pair:
  "st_letterSpacing s = Some (ValueUnit v u) \<Longrightarrow> letterSpacing (parseTextStyle s) = v"
  by (simp add: parseTextStyle_def)

lemma letterSpacing_number:
  "st_letterSpacing s = Some (Num v) \<Longrightarrow> letterSpacing (parseTextStyle s) = v"
  by (simp add: parseTextStyle_def orNum_def)

lemma letterSpacing_default:
  "st_letterSpacing s = None \<Longrightarrow> letterSpacing (parseTextStyle s) = 0"
  by (simp add: parseTextStyle_def orNum_def)

text \<open>
  Claim C6 as stated fails: a TEXT node whose style has the explicit numeric line
  height 0 and font size 20 is extracted with line height 20, not 0.
\<close>

theorem line_height_zero_counterexample:
  "st_lineHeight (plainStyle\<lparr>st_fontSize := Some 20, st_lineHeight := Some (Num 0)\<rparr>) = Some (Num 0)
   \<and> map lineHeight (extractTextStyles intStr
        [textNode (plainStyle\<lparr>st_fontSize := Some 20, st_lineHeight := Some (Num 0)\<rparr>)]) = [20]
   \<and> map lineHeight (extractTextStyles intStr
        [textNode (plainStyle\<lparr>st_fontSize := Some 20, st_lineHeight := Some (Num 0)\<rparr>)]) \<noteq> [0]"
  by code_simp

text \<open>
  Claim C6, amended. The styles that \<open>extractTextStyles\<close> keeps are the first
  occurrences, by key, of the styles of the TEXT nodes in pre-order, each turned into
  a record by \<open>parseTextStyle\<close>. In that record the line height is the value of a
  {value, unit} pair as it is; an explicit number when it is not 0; and the extracted
  font size (the style's font size, or 16 when that is absent or 0) when the line
  height is absent or is the number 0. The letter spacing is the value of a pair or
  the explicit number, and 0 when absent.
\<close>

theorem line_height_normalization:
  "extractTextStyles str nodes
     = map parseTextStyle (firstByKey (textStyleKey str) (forestTextStyles nodes))
   \<and> (st_lineHeight s = Some (ValueUnit v u) \<longrightarrow> lineHeight (parseTextStyle s) = v)
   \<and> (st_lineHeight s = Some (Num v) \<and> v \<noteq> 0 \<longrightarrow> lineHeight (parseTextStyle s) = v)
   \<and> (st_lineHeight s = None \<or> st_lineHeight s = Some (Num 0) \<longrightarrow>
        lineHeight (parseTextStyle s) = fontSize (parseTextStyle s))
   \<and> fontSize (parseTextStyle s)
       = (case st_fontSize s of None \<Rightarrow> 16 | Some z \<Rightarrow> if z = 0 then 16 else z)
   \<and> (st_letterSpacing s = Some (ValueUnit v' u') \<longrightarrow> letterSpacing (parseTextStyle s) = v')
   \<and> (st_letterSpacing s = Some (Num v') \<longrightarrow> letterSpacing (parseTextStyle s) = v')
   \<and> (st_letterSpacing s = None \<longrightarrow> letterSpacing (parseTextStyle s) = 0)"
  using extractTextStyles_first [of str nodes] lineHeight_pair [of s v u]
    lineHeight_number [of s v] lineHeight_default [of s] fontSize_default [of s]
    letterSpacing_pair [of s v' u'] letterSpacing_number [of s v'] letterSpacing_default [of s]
  by blast

text \<open>Each case of the normalization at a concrete style, and two nodes that share a key.\<close>

theorem line_height_normalization_witness:
  "lineHeight (parseTextStyle (plainStyle\<lparr>st_lineHeight := Some (ValueUnit 150 ''PERCENT'')\<rparr>)) = 150
   \<and> lineHeight (parseTextStyle (plainStyle\<lparr>st_lineHeight := Some (Num 24)\<rparr>)) = 24
   \<and> lineHeight (parseTextStyle (plainStyle\<lparr>st_fontSize := Some 20\<rparr>)) = 20
   \<and> lineHeight (parseTextStyle (plainStyle\<lparr>st_fontSize := None, st_lineHeight := Some (Num 0)\<rparr>)) = 16
   \<and> letterSpacing (parseTextStyle (plainStyle\<lparr>st_letterSpacing := Some (ValueUnit 2 ''PIXELS'')\<rparr>)) = 2
   \<and> letterSpacing (parseTextStyle (plainStyle\<lparr>st_letterSpacing := Some (Num 3)\<rparr>)) = 3
   \<and> letterSpacing (parseTextStyle plainStyle) = 0
   \<and> map lineHeight (extractTextStyles intStr
        [textNode (plainStyle\<lparr>st_lineHeight := Some (ValueUnit 150 ''PERCENT'')\<rparr>),
         textNode (plainStyle\<lparr>st_lineHeight := Some (Num 24)\<rparr>)]) = [150]"
proof -
  have "st_lineHeight (plainStyle\<lparr>st_lineHeight := Some (ValueUnit 150 ''PERCENT'')\<rparr>)
          = Some (ValueUnit 150 ''PERCENT'')"
    by simp
  with line_height_normalization
    [of intStr "[]" "plainStyle\<lparr>st_lineHeight := Some (ValueUnit 150 ''PERCENT'')\<rparr>" 150 "''PERCENT''"]
  have 1: "lineHeight (parseTextStyle (plainStyle\<lparr>st_lineHeight := Some (ValueUnit 150 ''PERCENT'')\<rparr>)) = 150"
    by blast
  have "st_lineHeight (plainStyle\<lparr>st_lineHeight := Some (Num 24)\<rparr>) = Some (Num 24) \<and> (24::number) \<noteq> 0"
    by simp
  with line_height_normalization [of intStr "[]" "plainStyle\<lparr>st_lineHeight := Some (Num 24)\<rparr>" _ _ 24]
  have 2: "lineHeight (parseTextStyle (plainStyle\<lparr>st_lineHeight := Some (Num 24)\<rparr>)) = 24"
    by blast
  have "st_lineHeight (plainStyle\<lparr>st_fontSize := Some 20\<rparr>) = None"
    and "st_fontSize (plainStyle\<lparr>st_fontSize := Some 20\<rparr>) = Some 20"
    by (simp_all add: plainStyle_def)
  with line_height_normalization [of intStr "[]" "plainStyle\<lparr>st_fontSize := Some 20\<rparr>"]
  have 3: "lineHeight (parseTextStyle (plainStyle\<lparr>st_fontSize := Some 20\<rparr>)) = 20"
    by simp
  have "st_lineHeight (plainStyle\<lparr>st_fontSize := None, st_lineHeight := Some (Num 0)\<rparr>) = Some (Num 0)"
    and "st_fontSize (plainStyle\<lparr>st_fontSize := None, st_lineHeight := Some (Num 0)\<rparr>) = None"
    by simp_all
  with line_height_normalization
    [of intStr "[]" "plainStyle\<lparr>st_fontSize := None, st_lineHeight := Some (Num 0)\<rparr>"]
  have 4: "lineHeight (parseTextStyle (plainStyle\<lparr>st_fontSize := None, st_lineHeight := Some (Num 0)\<rparr>)) = 16"
    by simp
  have "st_letterSpacing (plainStyle\<lparr>st_letterSpacing := Some (ValueUnit 2 ''PIXELS'')\<rparr>)
          = Some (ValueUnit 2 ''PIXELS'')"
    by simp
  with line_height_normalization
    [of intStr "[]" "plainStyle\<lparr>st_letterSpacing := Some (ValueUnit 2 ''PIXELS'')\<rparr>" _ _ 2 "''PIXELS''"]
  have 5: "letterSpacing (parseTextStyle (plainStyle\<lparr>st_letterSpacing := Some (ValueUnit 2 ''PIXELS'')\<rparr>)) = 2"
    by blast
  have "st_letterSpacing (plainStyle\<lparr>st_letterSpacing := Some (Num 3)\<rparr>) = Some (Num 3)"
    by simp
  with line_height_normalization
    [of intStr "[]" "plainStyle\<lparr>st_letterSpacing := Some (Num 3)\<rparr>" _ _ 3]
  have 6: "letterSpacing (parseTextStyle (plainStyle\<lparr>st_letterSpacing := Some (Num 3)\<rparr>)) = 3"
    by blast
  have "st_letterSpacing plainStyle = None" by (simp add: plainStyle_def)
  with line_height_normalization [of intStr "[]" plainStyle]
  have 7: "letterSpacing (parseTextStyle plainStyle) = 0"
    by blast
  have 8: "map lineHeight (extractTextStyles intStr
        [textNode (plainStyle\<lparr>st_lineHeight := Some (ValueUnit 150 ''PERCENT'')\<rparr>),
         textNode (plainStyle\<lparr>st_lineHeight := Some (Num 24)\<rparr>)]) = [150]"
    by code_simp
  from 1 2 3 4 5 6 7 8 show ?thesis by blast
qed

text \<open>
  Claim C1. The claim does not hold of the code: the key of \<open>extractTextStyles\<close> takes
  the defaults Unknown and 0 for an absent font family and font size, while the
  record it stores takes Inter and 16. A style without a font family and a style
  with the family Inter (both 16, 400) have the keys Unknown-16-400 and Inter-16-400
  and yield two entries with the same family, size and weight, each with its own line
  height; likewise a style without a font size and a style with font size 16.
\<close>

theorem text_style_key_defaults:
  "map (\<lambda>p. (fontFamily p, fontSize p, fontWeight p, lineHeight p))
     (extractTextStyles intStr
        [textNode (plainStyle\<lparr>st_fontFamily := None, st_lineHeight := Some (Num 20)\<rparr>),
         textNode (plainStyle\<lparr>st_lineHeight := Some (Num 24)\<rparr>)])
     = [(''Inter'', 16, 400, 20), (''Inter'', 16, 400, 24)]
   \<and> map (\<lambda>p. (fontFamily p, fontSize p, fontWeight p, lineHeight p))
     (extractTextStyles intStr
        [textNode (plainStyle\<lparr>st_fontSize := None, st_lineHeight := Some (Num 20)\<rparr>),
         textNode (plainStyle\<lparr>st_lineHeight := Some (Num 24)\<rparr>)])
     = [(''Inter'', 16, 400, 20), (''Inter'', 16, 400, 24)]
   \<and> textStyleKey intStr (plainStyle\<lparr>st_fontFamily := None\<rparr>) = ''Unknown-16-400''
   \<and> textStyleKey intStr (plainStyle\<lparr>st_fontSize := None\<rparr>) = ''Inter-0-400''
   \<and> textStyleKey intStr plainStyle = ''Inter-16-400''"
  by code_simp

section \<open>The empty forest\<close>

text \<open>
  Claim C9. On the empty forest every extraction function returns the empty list,
  \<open>parseFigmaNodes\<close> returns a design with five empty collections, and
  \<open>generateDesignTokens\<close> returns four empty token collections. The functions are total:
  no branch of the source raises on a node of the declared type.
\<close>

theorem empty_forest:
  "extractTextStyles str [] = []
   \<and> extractColors [] = []
   \<and> extractAutoLayoutInfo [] = []
   \<and> extractSpacing [] = []
   \<and> parseFigmaNodes str [] =
       \<lparr>textStyles = [], colors = [], autoLayouts = [], spacing = [], borderRadius = []\<rparr>
   \<and> generateDesignTokens str (parseFigmaNodes str []) =
       \<lparr>tk_colors = [], tk_typography = [], tk_spacing = [], tk_borderRadius = []\<rparr>"
  by (simp add: extractTextStyles_def extractColors_def extractAutoLayoutInfo_def
      extractSpacing_def parseFigmaNodes_def generateDesignTokens_def mapValues_def
      generateColorTokens_def generateTypographyTokens_def generateSpacingTokens_def
      generateBorderRadiusTokens_def allSpacingValues_def)

end

